theory Spec2Isabelle
  imports Main "HOL-Library.Monad_Syntax"
begin

section \<open>JavaScript values and the object heap\<close>

text \<open>
  The proof generator service (\<^verbatim>\<open>generateCALProof\<close>, \<^verbatim>\<open>generateBTCProof\<close> and the
  helpers \<^verbatim>\<open>addChainpointHeader\<close>, \<^verbatim>\<open>addCalendarBranch\<close>, \<^verbatim>\<open>addBtcBranch\<close>) works on the
  object graph that \<^verbatim>\<open>JSON.parse\<close> returns for a message and on objects and arrays it
  creates itself. Objects and arrays are mutable and shared by reference, so they live
  in a heap: a list of cells, the address of a cell being its index, allocation
  appending a cell. A value is a primitive or a reference to a cell.

  No arithmetic is done on the numbers of a message, which are integers here.
  \<open>Builtin\<close> stands for a function object of the language's prototypes. The only one a
  property read of this program can reach is \<^verbatim>\<open>String.prototype.anchor\<close>
  (\<^verbatim>\<open>calState.anchor\<close> when \<^verbatim>\<open>calState\<close> is a string).
\<close>

datatype val = Undefined | Null | Bool bool | Num int | Str string | Ref nat | Builtin

text \<open>
  An object keeps its properties in insertion order. An array has its elements and,
  being an object too, may be given named properties.
\<close>

datatype cell = Obj "(string \<times> val) list" | Arr "val list" "(string \<times> val) list"

type_synonym heap = "cell list"

fun lookup :: "(string \<times> val) list \<Rightarrow> string \<Rightarrow> val" where
  "lookup [] k = Undefined"
| "lookup ((k', v) # ps) k = (if k = k' then v else lookup ps k)"

fun set_key :: "string \<Rightarrow> val \<Rightarrow> (string \<times> val) list \<Rightarrow> (string \<times> val) list" where
  "set_key k v [] = [(k, v)]"
| "set_key k v ((k', v') # ps) = (if k = k' then (k, v) # ps else (k', v') # set_key k v ps)"

text \<open>\<open>cell_at h a\<close> is the cell at address \<open>a\<close>. A cell is never removed from the heap.\<close>

definition cell_at :: "heap \<Rightarrow> nat \<Rightarrow> cell option" where
  "cell_at h a = (if a < length h then Some (h ! a) else None)"

text \<open>
  Every operation that can throw returns an option, \<open>None\<close> standing for the exception
  (a \<^verbatim>\<open>TypeError\<close> here). Nothing in the service catches an exception, so a thrown
  exception ends the processing of the message there. A reference to no cell cannot be
  made in the language; the operations give \<open>None\<close> for it.

  \<open>get_prop h v k\<close> is the read \<^verbatim>\<open>v.k\<close> for the property names this program reads
  (none of them is an array index or \<^verbatim>\<open>length\<close>): it throws on \<^verbatim>\<open>undefined\<close> and
  \<^verbatim>\<open>null\<close>, and gives \<^verbatim>\<open>undefined\<close> for a property that is not there. Of the names
  read, the prototypes of the language have \<^verbatim>\<open>anchor\<close> only, a method of strings.
\<close>

definition get_prop :: "heap \<Rightarrow> val \<Rightarrow> string \<Rightarrow> val option" where
  "get_prop h v k =
     (case v of
        Undefined \<Rightarrow> None
      | Null \<Rightarrow> None
      | Ref a \<Rightarrow>
          (case cell_at h a of
             None \<Rightarrow> None
           | Some (Obj ps) \<Rightarrow> Some (lookup ps k)
           | Some (Arr xs ps) \<Rightarrow> Some (lookup ps k))
      | Str s \<Rightarrow> Some (if k = ''anchor'' then Builtin else Undefined)
      | _ \<Rightarrow> Some Undefined)"

text \<open>
  \<open>get_first h v\<close> is the read \<^verbatim>\<open>v[0]\<close>: the first element of an array, the property
  \<^verbatim>\<open>"0"\<close> of an object, the first character of a string.
\<close>

definition get_first :: "heap \<Rightarrow> val \<Rightarrow> val option" where
  "get_first h v =
     (case v of
        Undefined \<Rightarrow> None
      | Null \<Rightarrow> None
      | Ref a \<Rightarrow>
          (case cell_at h a of
             None \<Rightarrow> None
           | Some (Obj ps) \<Rightarrow> Some (lookup ps ''0'')
           | Some (Arr xs ps) \<Rightarrow> Some (case xs of [] \<Rightarrow> Undefined | x # rest \<Rightarrow> x))
      | Str s \<Rightarrow> Some (case s of [] \<Rightarrow> Undefined | c # rest \<Rightarrow> Str [c])
      | _ \<Rightarrow> Some Undefined)"

text \<open>
  \<open>set_prop h v k x\<close> is the assignment \<^verbatim>\<open>v.k = x\<close> for the property names this
  program assigns. The file is not in strict mode: an assignment to a property of a
  primitive is ignored, one to a property of \<^verbatim>\<open>undefined\<close> or \<^verbatim>\<open>null\<close> throws.
\<close>

fun put_key :: "string \<Rightarrow> val \<Rightarrow> cell \<Rightarrow> cell" where
  "put_key k x (Obj ps) = Obj (set_key k x ps)"
| "put_key k x (Arr xs ps) = Arr xs (set_key k x ps)"

definition set_prop :: "heap \<Rightarrow> val \<Rightarrow> string \<Rightarrow> val \<Rightarrow> heap option" where
  "set_prop h v k x =
     (case v of
        Undefined \<Rightarrow> None
      | Null \<Rightarrow> None
      | Ref a \<Rightarrow>
          (case cell_at h a of
             None \<Rightarrow> None
           | Some c \<Rightarrow> Some (h[a := put_key k x c]))
      | _ \<Rightarrow> Some h)"

text \<open>An object literal and an array literal: a new cell.\<close>

definition new_object :: "(string \<times> val) list \<Rightarrow> heap \<Rightarrow> val \<times> heap" where
  "new_object ps h = (Ref (length h), h @ [Obj ps])"

definition new_array :: "val list \<Rightarrow> heap \<Rightarrow> val \<times> heap" where
  "new_array xs h = (Ref (length h), h @ [Arr xs []])"

text \<open>
  \<^verbatim>\<open>Array.prototype.concat\<close>: a new array holding the elements of the receiver, then,
  for each argument, its elements when it is an array and the argument itself
  otherwise. The receiver and the arguments are not changed.
\<close>

definition spread :: "heap \<Rightarrow> val \<Rightarrow> val list" where
  "spread h x =
     (case x of
        Ref b \<Rightarrow> (case cell_at h b of Some (Arr ys ps) \<Rightarrow> ys | _ \<Rightarrow> [x])
      | _ \<Rightarrow> [x])"

text \<open>
  \<open>call_concat h v args\<close> is \<^verbatim>\<open>v.concat(args)\<close> as the program uses it, its result
  becoming the receiver of \<^verbatim>\<open>push\<close>. A receiver that is not an array ends in a
  \<^verbatim>\<open>TypeError\<close>: at the call when it has no callable \<^verbatim>\<open>concat\<close>, at the later
  \<^verbatim>\<open>push\<close> when it is a string (whose \<^verbatim>\<open>concat\<close> returns a string).
\<close>

definition call_concat :: "heap \<Rightarrow> val \<Rightarrow> val list \<Rightarrow> (val \<times> heap) option" where
  "call_concat h v args =
     (case v of
        Ref a \<Rightarrow>
          (case cell_at h a of
             Some (Arr xs ps) \<Rightarrow> Some (new_array (xs @ concat (map (spread h) args)) h)
           | _ \<Rightarrow> None)
      | _ \<Rightarrow> None)"

text \<open>\<^verbatim>\<open>Array.prototype.push\<close> appends to the receiver in place.\<close>

definition call_push :: "heap \<Rightarrow> val \<Rightarrow> val \<Rightarrow> heap option" where
  "call_push h v x =
     (case v of
        Ref a \<Rightarrow>
          (case cell_at h a of
             Some (Arr xs ps) \<Rightarrow> Some (h[a := Arr (xs @ [x]) ps])
           | _ \<Rightarrow> None)
      | _ \<Rightarrow> None)"

section \<open>Dates\<close>

text \<open>
  A JavaScript number as far as this program handles one as a time: an integer count
  of milliseconds, or \<^verbatim>\<open>NaN\<close>.
\<close>

datatype jsnum = NaN | Fin int

fun js_minus :: "jsnum \<Rightarrow> jsnum \<Rightarrow> jsnum" where
  "js_minus (Fin a) (Fin b) = Fin (a - b)"
| "js_minus a b = NaN"

fun js_greater :: "jsnum \<Rightarrow> jsnum \<Rightarrow> bool" where
  "js_greater (Fin a) (Fin b) = (a > b)"
| "js_greater a b = False"

text \<open>
  The \<^verbatim>\<open>Date\<close> constructor. A date is its time value. \<^verbatim>\<open>new Date()\<close> reads the system
  clock, which is \<open>now\<close> milliseconds after the epoch when the code runs (a time
  that a date can hold); \<^verbatim>\<open>new Date(t)\<close> does not: its time value is \<open>t\<close>, or \<^verbatim>\<open>NaN\<close>
  (an invalid date) when \<open>t\<close> is \<^verbatim>\<open>NaN\<close> or more than 8.64e15 milliseconds away from
  the epoch.
\<close>

fun new_Date :: "int \<Rightarrow> jsnum option \<Rightarrow> jsnum" where
  "new_Date now None = Fin now"
| "new_Date now (Some NaN) = NaN"
| "new_Date now (Some (Fin t)) = (if \<bar>t\<bar> \<le> 8640000000000000 then Fin t else NaN)"

text \<open>\<open>pad w n\<close>: the last \<open>w\<close> decimal digits of \<open>n\<close>.\<close>

definition digit :: "nat \<Rightarrow> char" where
  "digit n = ''0123456789'' ! (n mod 10)"

fun pad :: "nat \<Rightarrow> nat \<Rightarrow> string" where
  "pad 0 n = []"
| "pad (Suc w) n = pad w (n div 10) @ [digit n]"

text \<open>
  The civil date (year, month, day) of a day number counted from 1970-01-01, in the
  proleptic Gregorian calendar, computed over 400-year eras that start on 1 March.
\<close>

definition civil_from_days :: "int \<Rightarrow> int \<times> int \<times> int" where
  "civil_from_days days =
     (let z = days + 719468;
          era = z div 146097;
          doe = z - era * 146097;
          yoe = (doe - doe div 1460 + doe div 36524 - doe div 146096) div 365;
          doy = doe - (365 * yoe + yoe div 4 - yoe div 100);
          mp = (5 * doy + 2) div 153;
          d = doy - (153 * mp + 2) div 5 + 1;
          m = (if mp < 10 then mp + 3 else mp - 9);
          y = yoe + era * 400 + (if m \<le> 2 then 1 else 0)
      in (y, m, d))"

text \<open>
  \<^verbatim>\<open>Date.prototype.toISOString\<close>: \<^verbatim>\<open>YYYY-MM-DDTHH:mm:ss.sssZ\<close>, the year written with a
  sign and six digits outside 0..9999; a \<^verbatim>\<open>RangeError\<close> on an invalid date.
\<close>

definition toISOString :: "jsnum \<Rightarrow> string option" where
  "toISOString date =
     (case date of
        NaN \<Rightarrow> None
      | Fin t \<Rightarrow>
          (let (y, m, d) = civil_from_days (t div 86400000);
               ms = nat (t mod 86400000);
               year = (if 0 \<le> y \<and> y \<le> 9999 then pad 4 (nat y)
                       else (if y < 0 then ''-'' else ''+'') @ pad 6 (nat \<bar>y\<bar>))
           in Some (year @ ''-'' @ pad 2 (nat m) @ ''-'' @ pad 2 (nat d) @ ''T'' @
                    pad 2 (ms div 3600000) @ '':'' @ pad 2 (ms div 60000 mod 60) @ '':'' @
                    pad 2 (ms div 1000 mod 60) @ ''.'' @ pad 3 (ms mod 1000) @ ''Z'')))"

definition formatDateISO8601NoMs :: "jsnum \<Rightarrow> string option" where
  "formatDateISO8601NoMs date = do {
     iso \<leftarrow> toISOString date;
     Some (take 19 iso @ ''Z'')
   }"

section \<open>Configuration, packages and servers\<close>

text \<open>
  The values that \<^verbatim>\<open>lib/parse-env.js\<close> reads from the environment. The generator
  and the API service read \<^verbatim>\<open>PROOF_EXPIRE_MINUTES\<close>, a whole number of minutes, from the
  same configuration.
\<close>

record env =
  PROOF_EXPIRE_MINUTES :: int
  RMQ_WORK_IN_GEN_QUEUE :: string
  RMQ_WORK_OUT_API_QUEUE :: string
  RMQ_OUTGOING_EXCHANGE :: string

datatype js_error = Error string

datatype decision = Ack | Nack

record notification =
  exchange :: string
  routing_key :: string
  body :: "(string \<times> val) list"
  headers :: "(string \<times> string) list"
  persistent :: bool

text \<open>
  The generator keeps its Redis client in the module variable \<^verbatim>\<open>redis\<close>, which is
  \<^verbatim>\<open>null\<close> until \<^verbatim>\<open>openRedisConnection\<close> has run and again from an \<^verbatim>\<open>error\<close> event of the
  client until the connection is opened anew, five seconds later (lines 18 and 25--32).
  A call \<^verbatim>\<open>redis.set(...)\<close> or \<^verbatim>\<open>redis.hgetall(...)\<close> therefore has one of three outcomes:
  \<open>NoClient\<close>, the variable is \<^verbatim>\<open>null\<close> and the call throws a \<^verbatim>\<open>TypeError\<close>; \<open>Reply (Some err)\<close>,
  the client passes the error \<open>err\<close> to the callback; \<open>Reply None\<close>, the server has
  executed the command and the client passes no error. The tasks of a waterfall run
  one after another between events, so the outcomes of two calls are independent.
\<close>

datatype reply = NoClient | Reply "js_error option"

text \<open>
  What lies outside the repository is a parameter of the model: the packages
  \<^verbatim>\<open>uuid-time\<close>, \<^verbatim>\<open>uuid-validate\<close>, \<^verbatim>\<open>chainpoint-proof-json-schema\<close> and
  \<^verbatim>\<open>chainpoint-binary\<close>, the outcome of a call of the Redis client, and the error, if
  any, with which the broker answers.

  \<open>uuidTime_v1\<close> is \<^verbatim>\<open>uuidTime.v1\<close> on a string: the time it reads there, \<^verbatim>\<open>NaN\<close> where it
  reads none (\<^verbatim>\<open>toISOString\<close> then throws). \<open>uuidTime_v1_other\<close> is \<^verbatim>\<open>uuidTime.v1\<close> on any
  other value, an array of bytes for instance: the number it returns, or \<open>None\<close> when it
  throws.

  A hash id that is not a string is converted where a string is needed:
  \<open>client_key\<close> is the key that the Redis client sends for such a first argument of
  \<^verbatim>\<open>set\<close>, and \<open>ToString\<close> is the string that the language makes of such a value in
  \<^verbatim>\<open>'sub:' + messageObj.hash_id\<close>; \<open>None\<close> when the conversion throws. Both are parameters:
  no property stated below is about a hash id that is not a string.
\<close>

record services =
  uuidTime_v1 :: "string \<Rightarrow> jsnum"
  uuidTime_v1_other :: "heap \<Rightarrow> val \<Rightarrow> jsnum option"
  uuidValidate :: "string \<Rightarrow> nat \<Rightarrow> bool"
  validate :: "heap \<Rightarrow> val \<Rightarrow> bool"
  objectToBase64 :: "heap \<Rightarrow> val \<Rightarrow> js_error + string"
  binaryToObject :: "string option \<Rightarrow> js_error + heap \<times> val"
  client_key :: "heap \<Rightarrow> val \<Rightarrow> string option"
  ToString :: "heap \<Rightarrow> val \<Rightarrow> string option"
  redis_set_reply :: "string \<Rightarrow> reply"
  redis_hgetall_reply :: "string \<Rightarrow> reply"
  redis_get_error :: "string \<Rightarrow> js_error option"
  publish_error :: "notification \<Rightarrow> js_error option"

text \<open>
  The Redis keyspace holds the encoded proofs (a string with its time to live in
  seconds) and, written by the API service, the subscriptions (a hash of strings).
\<close>

datatype redis_entry = RString string int | RHash "(string \<times> string) list"

text \<open>
  The state outside the process: the Redis keyspace, the notifications handed to the
  channel for the outgoing exchange, the \<^verbatim>\<open>ack\<close> and \<^verbatim>\<open>nack\<close> calls made for the
  message being processed, and the console.
\<close>

record world =
  redis :: "string \<rightharpoonup> redis_entry"
  published :: "notification list"
  decisions :: "decision list"
  console :: "string list"

text \<open>
  A message of the queue: the object graph that \<^verbatim>\<open>JSON.parse(msg.content.toString())\<close>
  returns, by its root (\<open>None\<close> when the content is not JSON and the parse throws),
  and \<^verbatim>\<open>msg.properties.type\<close> (\<open>None\<close> when it is not set).
\<close>

record message =
  content :: "val option"
  properties_type :: "string option"

text \<open>\<^verbatim>\<open>console.log\<close> and \<^verbatim>\<open>console.error\<close> print their arguments with a space between.\<close>

fun join_words :: "string list \<Rightarrow> string" where
  "join_words [] = []"
| "join_words [a] = a"
| "join_words (a # b # bs) = a @ '' '' @ join_words (b # bs)"

definition console_print :: "string list \<Rightarrow> world \<Rightarrow> world" where
  "console_print args w = w\<lparr>console := console w @ [join_words args]\<rparr>"

definition ack :: "world \<Rightarrow> world" where
  "ack w = w\<lparr>decisions := decisions w @ [Ack]\<rparr>"

definition nack :: "world \<Rightarrow> world" where
  "nack w = w\<lparr>decisions := decisions w @ [Nack]\<rparr>"

text \<open>
  \<^verbatim>\<open>redis.set(key, value, 'EX', seconds, callback)\<close> and \<^verbatim>\<open>redis.hgetall(key, callback)\<close> in
  the generator: \<open>None\<close> is the \<^verbatim>\<open>TypeError\<close> thrown on the \<^verbatim>\<open>null\<close> variable, before
  anything is sent; otherwise what the callback receives, an error (\<open>Inl\<close>) or the
  result. Neither call is guarded or made in a \<^verbatim>\<open>try\<close>.
\<close>

definition redis_set ::
  "services \<Rightarrow> string \<Rightarrow> string \<Rightarrow> int \<Rightarrow> world \<Rightarrow> (js_error + world) option" where
  "redis_set S key value seconds w =
     (case redis_set_reply S key of
        NoClient \<Rightarrow> None
      | Reply (Some err) \<Rightarrow> Some (Inl err)
      | Reply None \<Rightarrow> Some (Inr (w\<lparr>redis := (redis w)(key \<mapsto> RString value seconds)\<rparr>)))"

definition redis_hgetall ::
  "services \<Rightarrow> string \<Rightarrow> world \<Rightarrow> (js_error + (string \<times> string) list option) option" where
  "redis_hgetall S key w =
     (case redis_hgetall_reply S key of
        NoClient \<Rightarrow> None
      | Reply (Some err) \<Rightarrow> Some (Inl err)
      | Reply None \<Rightarrow>
          (case redis w key of
             None \<Rightarrow> Some (Inr None)
           | Some (RHash kvs) \<Rightarrow> Some (Inr (Some kvs))
           | Some (RString value seconds) \<Rightarrow> Some (Inl (Error ''WRONGTYPE''))))"

text \<open>
  \<^verbatim>\<open>redis.get(key, callback)\<close> in the API service, whose client is the one that the
  server has passed to \<^verbatim>\<open>setRedis\<close>.
\<close>

definition redis_get :: "services \<Rightarrow> string \<Rightarrow> world \<Rightarrow> js_error + string option" where
  "redis_get S key w =
     (case redis_get_error S key of
        Some err \<Rightarrow> Inl err
      | None \<Rightarrow>
          (case redis w key of
             None \<Rightarrow> Inr None
           | Some (RString value seconds) \<Rightarrow> Inr (Some value)
           | Some (RHash kvs) \<Rightarrow> Inl (Error ''WRONGTYPE'')))"

definition publish :: "notification \<Rightarrow> world \<Rightarrow> world" where
  "publish n w = w\<lparr>published := published w @ [n]\<rparr>"

section \<open>Composition of the proof document\<close>

text \<open>
  \<open>now\<close> is the system clock when the message is processed. \<^verbatim>\<open>uuidTime.v1(hashId)\<close> is
  called on the hash id whatever it is.
\<close>

definition uuidTime_v1_call :: "services \<Rightarrow> heap \<Rightarrow> val \<Rightarrow> jsnum option" where
  "uuidTime_v1_call S h v =
     (case v of Str s \<Rightarrow> Some (uuidTime_v1 S s) | _ \<Rightarrow> uuidTime_v1_other S h v)"

definition addChainpointHeader ::
  "int \<Rightarrow> services \<Rightarrow> heap \<Rightarrow> val \<Rightarrow> val \<Rightarrow> val \<Rightarrow> (val \<times> heap) option" where
  "addChainpointHeader now S h proof hash hashId = do {
     h \<leftarrow> set_prop h proof ''@context'' (Str ''https://w3id.org/chainpoint/v3'');
     h \<leftarrow> set_prop h proof ''type'' (Str ''Chainpoint'');
     h \<leftarrow> set_prop h proof ''hash'' hash;
     h \<leftarrow> set_prop h proof ''hash_id'' hashId;
     time \<leftarrow> uuidTime_v1_call S h hashId;
     submitted \<leftarrow> formatDateISO8601NoMs (new_Date now (Some time));
     h \<leftarrow> set_prop h proof ''hash_submitted_at'' (Str submitted);
     Some (proof, h)
   }"

definition addCalendarBranch :: "heap \<Rightarrow> val \<Rightarrow> val \<Rightarrow> val \<Rightarrow> (val \<times> heap) option" where
  "addCalendarBranch h proof aggState calState = do {
     (calendarBranch, h) \<leftarrow> Some (new_object [] h);
     h \<leftarrow> set_prop h calendarBranch ''label'' (Str ''cal_anchor_branch'');
     aggOps \<leftarrow> get_prop h aggState ''ops'';
     calOps \<leftarrow> get_prop h calState ''ops'';
     (ops, h) \<leftarrow> call_concat h aggOps [calOps];
     h \<leftarrow> set_prop h calendarBranch ''ops'' ops;
     (calendarAnchor, h) \<leftarrow> Some (new_object [] h);
     h \<leftarrow> set_prop h calendarAnchor ''type'' (Str ''cal'');
     anchor \<leftarrow> get_prop h calState ''anchor'';
     anchor_id \<leftarrow> get_prop h anchor ''anchor_id'';
     h \<leftarrow> set_prop h calendarAnchor ''anchor_id'' anchor_id;
     anchor \<leftarrow> get_prop h calState ''anchor'';
     uris \<leftarrow> get_prop h anchor ''uris'';
     h \<leftarrow> set_prop h calendarAnchor ''uris'' uris;
     branchOps \<leftarrow> get_prop h calendarBranch ''ops'';
     (anchors, h) \<leftarrow> Some (new_array [calendarAnchor] h);
     (element, h) \<leftarrow> Some (new_object [(''anchors'', anchors)] h);
     h \<leftarrow> call_push h branchOps element;
     (branches, h) \<leftarrow> Some (new_array [calendarBranch] h);
     h \<leftarrow> set_prop h proof ''branches'' branches;
     Some (proof, h)
   }"

definition addBtcBranch ::
  "heap \<Rightarrow> val \<Rightarrow> val \<Rightarrow> val \<Rightarrow> val \<Rightarrow> (val \<times> heap) option" where
  "addBtcBranch h proof anchorAggState btcTxState btcHeadState = do {
     (btcBranch, h) \<leftarrow> Some (new_object [] h);
     h \<leftarrow> set_prop h btcBranch ''label'' (Str ''btc_anchor_branch'');
     anchorAggOps \<leftarrow> get_prop h anchorAggState ''ops'';
     btcTxOps \<leftarrow> get_prop h btcTxState ''ops'';
     btcHeadOps \<leftarrow> get_prop h btcHeadState ''ops'';
     (ops, h) \<leftarrow> call_concat h anchorAggOps [btcTxOps, btcHeadOps];
     h \<leftarrow> set_prop h btcBranch ''ops'' ops;
     (btcAnchor, h) \<leftarrow> Some (new_object [] h);
     h \<leftarrow> set_prop h btcAnchor ''type'' (Str ''btc'');
     anchor \<leftarrow> get_prop h btcHeadState ''anchor'';
     anchor_id \<leftarrow> get_prop h anchor ''anchor_id'';
     h \<leftarrow> set_prop h btcAnchor ''anchor_id'' anchor_id;
     branchOps \<leftarrow> get_prop h btcBranch ''ops'';
     (anchors, h) \<leftarrow> Some (new_array [btcAnchor] h);
     (element, h) \<leftarrow> Some (new_object [(''anchors'', anchors)] h);
     h \<leftarrow> call_push h branchOps element;
     rootBranches \<leftarrow> get_prop h proof ''branches'';
     rootBranch \<leftarrow> get_first h rootBranches;
     (branches, h) \<leftarrow> Some (new_array [btcBranch] h);
     h \<leftarrow> set_prop h rootBranch ''branches'' branches;
     Some (proof, h)
   }"

section \<open>The generator: validate, store, notify, acknowledge\<close>

text \<open>
  Lines 52--54 of \<^verbatim>\<open>generateCALProof\<close> and lines 133--136 of \<^verbatim>\<open>generateBTCProof\<close>: the
  document is a fresh object, filled from the fields of the message object.
\<close>

definition generateCALProof_compose ::
  "int \<Rightarrow> services \<Rightarrow> heap \<Rightarrow> val \<Rightarrow> (val \<times> heap) option" where
  "generateCALProof_compose now S h messageObj = do {
     (proof, h) \<leftarrow> Some (new_object [] h);
     hash \<leftarrow> get_prop h messageObj ''hash'';
     hash_id \<leftarrow> get_prop h messageObj ''hash_id'';
     (proof, h) \<leftarrow> addChainpointHeader now S h proof hash hash_id;
     agg_state \<leftarrow> get_prop h messageObj ''agg_state'';
     cal_state \<leftarrow> get_prop h messageObj ''cal_state'';
     addCalendarBranch h proof agg_state cal_state
   }"

definition generateBTCProof_compose ::
  "int \<Rightarrow> services \<Rightarrow> heap \<Rightarrow> val \<Rightarrow> (val \<times> heap) option" where
  "generateBTCProof_compose now S h messageObj = do {
     (proof, h) \<leftarrow> Some (new_object [] h);
     hash \<leftarrow> get_prop h messageObj ''hash'';
     hash_id \<leftarrow> get_prop h messageObj ''hash_id'';
     (proof, h) \<leftarrow> addChainpointHeader now S h proof hash hash_id;
     agg_state \<leftarrow> get_prop h messageObj ''agg_state'';
     cal_state \<leftarrow> get_prop h messageObj ''cal_state'';
     (proof, h) \<leftarrow> addCalendarBranch h proof agg_state cal_state;
     anchor_agg_state \<leftarrow> get_prop h messageObj ''anchor_agg_state'';
     btctx_state \<leftarrow> get_prop h messageObj ''btctx_state'';
     btchead_state \<leftarrow> get_prop h messageObj ''btchead_state'';
     addBtcBranch h proof anchor_agg_state btctx_state btchead_state
   }"

text \<open>The branch taken when the document is not valid (lines 58--65 and 140--147).\<close>

definition invalid_schema :: "env \<Rightarrow> world \<Rightarrow> world" where
  "invalid_schema E w =
     console_print [RMQ_WORK_IN_GEN_QUEUE E,
       ''consume message acked, but with invalid JSON schema error''] (ack w)"

text \<open>
  The key under which Redis stores the proof is \<^verbatim>\<open>messageObj.hash_id\<close>, and the key of
  the subscription is \<^verbatim>\<open>'sub:' + messageObj.hash_id\<close>: the hash id itself when it is a
  string.
\<close>

definition redis_key :: "services \<Rightarrow> heap \<Rightarrow> val \<Rightarrow> string option" where
  "redis_key S h v = (case v of Str s \<Rightarrow> Some s | _ \<Rightarrow> client_key S h v)"

definition to_string :: "services \<Rightarrow> heap \<Rightarrow> val \<Rightarrow> string option" where
  "to_string S h v = (case v of Str s \<Rightarrow> Some s | _ \<Rightarrow> ToString S h v)"

text \<open>
  The third task (lines 82--93): \<^verbatim>\<open>res\<close> is \<^verbatim>\<open>null\<close> or the fields of the hash;
  \<^verbatim>\<open>!res.api_id\<close> holds for a missing field and for the empty string.
\<close>

definition truthy :: "string option \<Rightarrow> bool" where
  "truthy x = (case x of None \<Rightarrow> False | Some s \<Rightarrow> s \<noteq> [])"

definition find_subscription ::
  "(string \<times> string) list option \<Rightarrow> string option \<times> string option" where
  "find_subscription res =
     (case res of
        None \<Rightarrow> (None, None)
      | Some kvs \<Rightarrow>
          (if \<not> truthy (map_of kvs ''api_id'') \<or> \<not> truthy (map_of kvs ''cx_id'')
           then (None, None)
           else (map_of kvs ''api_id'', map_of kvs ''cx_id'')))"

text \<open>The fourth task (lines 95--116): the error passed on, and the world after it.\<close>

definition publish_ready ::
  "env \<Rightarrow> services \<Rightarrow> string option \<Rightarrow> string option \<Rightarrow> val \<Rightarrow> world \<Rightarrow>
     js_error option \<times> world" where
  "publish_ready E S APIServiceInstanceId wsConnectionId hash_id w =
     (case (APIServiceInstanceId, wsConnectionId) of
        (Some api_id, Some cx_id) \<Rightarrow>
          (let opts_headers = [(''api_id'', api_id)];
               message = [(''cx_id'', Str cx_id), (''hash_id'', hash_id)];
               n = \<lparr>exchange = RMQ_OUTGOING_EXCHANGE E, routing_key = [],
                    body = message, headers = opts_headers, persistent = True\<rparr>;
               w = publish n w
           in (case publish_error S n of
                 Some err \<Rightarrow>
                   (Some err, console_print [RMQ_WORK_OUT_API_QUEUE E, ''publish message nacked''] w)
               | None \<Rightarrow>
                   (None, console_print [RMQ_WORK_OUT_API_QUEUE E, ''publish message acked''] w)))
      | _ \<Rightarrow> (None, w))"

text \<open>The final callback of the waterfall (lines 118--127 and 200--209).\<close>

definition finish :: "env \<Rightarrow> string \<Rightarrow> js_error option \<Rightarrow> world \<Rightarrow> world" where
  "finish E tag err w =
     (case err of
        Some e \<Rightarrow>
          console_print [RMQ_WORK_IN_GEN_QUEUE E, tag @ '' consume message nacked''] (nack w)
      | None \<Rightarrow>
          console_print [RMQ_WORK_IN_GEN_QUEUE E, tag @ '' consume message acked''] (ack w))"

text \<open>
  How the processing of a message ends: the consumer's callback returns, with every
  callback of the waterfall run, or an exception is thrown that nothing catches (the
  file has no \<^verbatim>\<open>try\<close>, and \<^verbatim>\<open>async.waterfall\<close> catches nothing). Either way the
  outcome holds the world as the processing has left it.
\<close>

datatype outcome = Returned world | Thrown world

fun after :: "outcome \<Rightarrow> world" where
  "after (Returned w) = w"
| "after (Thrown w) = w"

text \<open>
  \<^verbatim>\<open>async.waterfall\<close> runs its tasks in order and calls the final callback with the
  first error, or with none after the last task. An exception thrown in a task ends
  the processing with the final callback not called, so with neither \<^verbatim>\<open>ack\<close> nor
  \<^verbatim>\<open>nack\<close>. The two generators hold the same four tasks (lines 67--127 and 149--209),
  which differ in the tag of the last console line only. The heap does not change any
  more, so \<^verbatim>\<open>messageObj.hash_id\<close> is read once.
\<close>

definition waterfall ::
  "env \<Rightarrow> services \<Rightarrow> string \<Rightarrow> heap \<Rightarrow> val \<Rightarrow> val \<Rightarrow> world \<Rightarrow> outcome" where
  "waterfall E S tag h proof messageObj w =
     (case objectToBase64 S h proof of
        Inl err \<Rightarrow> Returned (finish E tag (Some err) w)
      | Inr proofBase64 \<Rightarrow>
          (case get_prop h messageObj ''hash_id'' of
             None \<Rightarrow> Thrown w
           | Some hash_id \<Rightarrow>
               (case redis_key S h hash_id of
                  None \<Rightarrow> Thrown w
                | Some key \<Rightarrow>
                    (case redis_set S key proofBase64 (PROOF_EXPIRE_MINUTES E * 60) w of
                       None \<Rightarrow> Thrown w
                     | Some (Inl err) \<Rightarrow> Returned (finish E tag (Some err) w)
                     | Some (Inr w) \<Rightarrow>
                         (case to_string S h hash_id of
                            None \<Rightarrow> Thrown w
                          | Some suffix \<Rightarrow>
                              (case redis_hgetall S (''sub:'' @ suffix) w of
                                 None \<Rightarrow> Thrown w
                               | Some (Inl err) \<Rightarrow> Returned (finish E tag (Some err) w)
                               | Some (Inr res) \<Rightarrow>
                                   (let (APIServiceInstanceId, wsConnectionId) =
                                          find_subscription res;
                                        (err, w) =
                                          publish_ready E S APIServiceInstanceId wsConnectionId
                                            hash_id w
                                    in Returned (finish E tag err w))))))))"

definition generateCALProof ::
  "int \<Rightarrow> env \<Rightarrow> services \<Rightarrow> heap \<Rightarrow> message \<Rightarrow> world \<Rightarrow> outcome" where
  "generateCALProof now E S h msg w =
     (case content msg of
        None \<Rightarrow> Thrown w
      | Some messageObj \<Rightarrow>
          (case generateCALProof_compose now S h messageObj of
             None \<Rightarrow> Thrown w
           | Some (proof, h) \<Rightarrow>
               (if \<not> validate S h proof then Returned (invalid_schema E w)
                else waterfall E S ''[cal]'' h proof messageObj w)))"

definition generateBTCProof ::
  "int \<Rightarrow> env \<Rightarrow> services \<Rightarrow> heap \<Rightarrow> message \<Rightarrow> world \<Rightarrow> outcome" where
  "generateBTCProof now E S h msg w =
     (case content msg of
        None \<Rightarrow> Thrown w
      | Some messageObj \<Rightarrow>
          (case generateBTCProof_compose now S h messageObj of
             None \<Rightarrow> Thrown w
           | Some (proof, h) \<Rightarrow>
               (if \<not> validate S h proof then Returned (invalid_schema E w)
                else waterfall E S ''[btc]'' h proof messageObj w)))"

definition generateETHProof :: "message \<Rightarrow> world \<Rightarrow> world" where
  "generateETHProof msg w = console_print [''building eth proof''] w"

text \<open>
  \<^verbatim>\<open>processMessage\<close>: the consumer's callback, \<open>now\<close> being the system clock when it
  runs; \<open>None\<close> as the message is \<^verbatim>\<open>null\<close>. The message has come over the channel, which
  is taken to stay open while the message is processed.
\<close>

definition processMessage ::
  "int \<Rightarrow> env \<Rightarrow> services \<Rightarrow> heap \<Rightarrow> message option \<Rightarrow> world \<Rightarrow> outcome" where
  "processMessage now E S h m w =
     (case m of
        None \<Rightarrow> Returned w
      | Some msg \<Rightarrow>
          (if properties_type msg = Some ''cal'' then generateCALProof now E S h msg w
           else if properties_type msg = Some ''eth'' then Returned (generateETHProof msg w)
           else if properties_type msg = Some ''btc'' then generateBTCProof now E S h msg w
           else Returned (console_print
                  [''Unknown state type'',
                   (case properties_type msg of None \<Rightarrow> ''undefined'' | Some t \<Rightarrow> t)] w)))"

section \<open>The retrieval layer\<close>

text \<open>
  The iterator of \<^verbatim>\<open>async.eachLimit\<close> in \<^verbatim>\<open>getProofsByIDV1Async\<close> (lines 120--142 of
  \<^verbatim>\<open>lib/endpoints/proofs.js\<close>): what \<^verbatim>\<open>hashIdResult.proof\<close> is for one hash id, \<open>now\<close>
  being \<^verbatim>\<open>new Date().getTime()\<close> and \<open>base64\<close> telling whether the requested type is
  the Base64 one.
\<close>

datatype fetched = NoProof | Base64Proof string | ObjectProof "heap \<times> val"

definition getProofsByIDV1Async_each ::
  "env \<Rightarrow> services \<Rightarrow> int \<Rightarrow> bool \<Rightarrow> world \<Rightarrow> string \<Rightarrow> fetched" where
  "getProofsByIDV1Async_each E S now base64 w hash_id =
     (if \<not> uuidValidate S hash_id 1 then NoProof
      else
        (let uuidEpoch = uuidTime_v1 S hash_id;
             nowEpoch = new_Date now None;
             uuidDiff = js_minus nowEpoch uuidEpoch;
             maxDiff = PROOF_EXPIRE_MINUTES E * 60 * 1000
         in if js_greater uuidDiff (Fin maxDiff) then NoProof
            else
              (case redis_get S hash_id w of
                 Inl err \<Rightarrow> NoProof
               | Inr proofBase64 \<Rightarrow>
                   (if base64 then
                      (case proofBase64 of None \<Rightarrow> NoProof | Some b \<Rightarrow> Base64Proof b)
                    else
                      (case binaryToObject S proofBase64 of
                         Inl err \<Rightarrow> NoProof
                       | Inr proofObj \<Rightarrow> ObjectProof proofObj)))))"

section \<open>The ISO 8601 form of a time\<close>

text \<open>
  What the header is to hold as the time of submission: the time \<open>t\<close>, in milliseconds
  from the epoch, written in UTC to the second as \<^verbatim>\<open>YYYY-MM-DDTHH:mm:ssZ\<close>, the
  milliseconds dropped. This is the form for a date in the years 0 to 9999, and it is
  written here from the calendar date and the second of the day, not from the code.
\<close>

definition iso8601_seconds :: "int \<Rightarrow> string" where
  "iso8601_seconds t =
     (let (y, m, d) = civil_from_days (t div 86400000);
          s = nat (t mod 86400000) div 1000
      in pad 4 (nat y) @ ''-'' @ pad 2 (nat m) @ ''-'' @ pad 2 (nat d) @ ''T'' @
         pad 2 (s div 3600) @ '':'' @ pad 2 (s div 60 mod 60) @ '':'' @ pad 2 (s mod 60) @ ''Z'')"

section \<open>Reading a stage event\<close>

text \<open>
  \<open>ops_of h state\<close>: the operations of a state fragment, the elements of the array
  \<^verbatim>\<open>state.ops\<close>; \<open>None\<close> when the fragment has no such array.
\<close>

definition ops_of :: "heap \<Rightarrow> val \<Rightarrow> val list option" where
  "ops_of h state = do {
     ops \<leftarrow> get_prop h state ''ops'';
     (case ops of
        Ref a \<Rightarrow> (case cell_at h a of Some (Arr xs ps) \<Rightarrow> Some xs | _ \<Rightarrow> None)
      | _ \<Rightarrow> None)
   }"

section \<open>What composition leaves alone\<close>

text \<open>
  \<open>elements_kept h h'\<close>: every array of \<open>h\<close> has the same elements in \<open>h'\<close>.
  \<open>cells_kept h h'\<close>: every cell of \<open>h\<close> is the same in \<open>h'\<close>.
\<close>

definition elements_kept :: "heap \<Rightarrow> heap \<Rightarrow> bool" where
  "elements_kept h h' =
     (\<forall>a xs ps. cell_at h a = Some (Arr xs ps) \<longrightarrow> (\<exists>ps'. cell_at h' a = Some (Arr xs ps')))"

definition cells_kept :: "heap \<Rightarrow> heap \<Rightarrow> bool" where
  "cells_kept h h' = (\<forall>a c. cell_at h a = Some c \<longrightarrow> cell_at h' a = Some c)"

section \<open>A sample message\<close>

text \<open>
  The object graph of a message that carries every fragment, so that it can be
  processed both as a \<^verbatim>\<open>cal\<close> and as a \<^verbatim>\<open>btc\<close> message. Cell 0 is the message object;
  the aggregation operations are cells 3 and 4, the calendar operation is cell 7.
\<close>

definition sample_heap :: heap where
  "sample_heap =
     [Obj [(''hash'', Str ''ab12''), (''hash_id'', Str ''34dbbcb0-0cfb-11e7-a5b4-01ba7816bf8f''),
           (''agg_state'', Ref 1), (''cal_state'', Ref 5), (''anchor_agg_state'', Ref 10),
           (''btctx_state'', Ref 13), (''btchead_state'', Ref 16)],
      Obj [(''ops'', Ref 2)],
      Arr [Ref 3, Ref 4] [],
      Obj [(''l'', Str ''aa'')],
      Obj [(''op'', Str ''sha-256'')],
      Obj [(''ops'', Ref 6), (''anchor'', Ref 8)],
      Arr [Ref 7] [],
      Obj [(''r'', Str ''cc'')],
      Obj [(''anchor_id'', Str ''42''), (''uris'', Ref 9)],
      Arr [Str ''/calendar/42/hash''] [],
      Obj [(''ops'', Ref 11)],
      Arr [Ref 12] [],
      Obj [(''l'', Str ''dd'')],
      Obj [(''ops'', Ref 14)],
      Arr [Ref 15] [],
      Obj [(''op'', Str ''sha-256-x2'')],
      Obj [(''ops'', Ref 17), (''anchor'', Ref 19)],
      Arr [Ref 18] [],
      Obj [(''r'', Str ''ee'')],
      Obj [(''anchor_id'', Str ''484001'')]]"

definition sample_id :: string where
  "sample_id = ''34dbbcb0-0cfb-11e7-a5b4-01ba7816bf8f''"

definition sample_env :: env where
  "sample_env =
     \<lparr>PROOF_EXPIRE_MINUTES = 1440, RMQ_WORK_IN_GEN_QUEUE = ''work.gen'',
      RMQ_WORK_OUT_API_QUEUE = ''work.api'', RMQ_OUTGOING_EXCHANGE = ''exchange.headers''\<rparr>"

text \<open>
  Packages and servers for the sample: the time of the sample id is
  2017-03-19T23:24:32.123Z, \<open>valid\<close> is the validator's verdict on every document, and
  \<open>set_err\<close> and \<open>publish_err\<close> are the answers of Redis to \<^verbatim>\<open>SET\<close> and of the broker;
  the Redis client is there.
\<close>

definition sample_services :: "bool \<Rightarrow> js_error option \<Rightarrow> js_error option \<Rightarrow> services" where
  "sample_services valid set_err publish_err =
     \<lparr>uuidTime_v1 = (\<lambda>s. if s = sample_id then Fin 1489965872123 else NaN),
      uuidTime_v1_other = (\<lambda>h v. None),
      uuidValidate = (\<lambda>s version. s = sample_id \<and> version = 1),
      validate = (\<lambda>h v. valid),
      objectToBase64 = (\<lambda>h v. Inr ''eJyrVkrOz0nVUbJSKs7MS8lXqgUAJ2YFYg==''),
      binaryToObject = (\<lambda>b. Inl (Error ''not a proof'')),
      client_key = (\<lambda>h v. None),
      ToString = (\<lambda>h v. None),
      redis_set_reply = (\<lambda>k. Reply set_err),
      redis_hgetall_reply = (\<lambda>k. Reply None),
      redis_get_error = (\<lambda>k. None),
      publish_error = (\<lambda>n. publish_err)\<rparr>"

text \<open>The clock when the sample message is processed: 2017-03-20T00:00:00Z.\<close>

definition sample_now :: int where
  "sample_now = 1489968000000"

text \<open>
  The same while the variable \<^verbatim>\<open>redis\<close> of the generator is \<^verbatim>\<open>null\<close>: after an \<^verbatim>\<open>error\<close>
  event of the client and before the connection is opened anew.
\<close>

definition sample_services_no_client :: services where
  "sample_services_no_client =
     (sample_services True None None)
       \<lparr>redis_set_reply := (\<lambda>k. NoClient), redis_hgetall_reply := (\<lambda>k. NoClient)\<rparr>"

definition sample_world :: "(string \<times> string) list option \<Rightarrow> world" where
  "sample_world subscription =
     \<lparr>redis = (\<lambda>k. if k = ''sub:'' @ sample_id then map_option RHash subscription else None),
      published = [], decisions = [], console = []\<rparr>"

definition sample_message :: "string \<Rightarrow> message" where
  "sample_message t = \<lparr>content = Some (Ref 0), properties_type = Some t\<rparr>"

section \<open>Properties of the heap operations\<close>

lemma ops_of_SomeD:
  "ops_of h state = Some xs \<Longrightarrow>
   \<exists>a ps. get_prop h state ''ops'' = Some (Ref a) \<and> cell_at h a = Some (Arr xs ps)"
  by (cases "get_prop h state ''ops''")
     (auto simp: ops_of_def split: val.splits option.splits cell.splits)

lemma cell_at_old: "cell_at h a = Some c \<Longrightarrow> cell_at (h @ ext) a = Some c"
  by (auto simp: cell_at_def nth_append split: if_splits)

lemma cell_at_young:
  "length h \<le> a \<Longrightarrow> a < length h + length ext \<Longrightarrow>
   cell_at (h @ ext) a = Some (ext ! (a - length h))"
  by (auto simp: cell_at_def nth_append)

lemma get_prop_old: "get_prop h v k = Some x \<Longrightarrow> get_prop (h @ ext) v k = Some x"
  by (auto simp: get_prop_def cell_at_old split: val.splits option.splits)

lemma get_prop_young:
  "length h \<le> a \<Longrightarrow> a < length h + length ext \<Longrightarrow>
   get_prop (h @ ext) (Ref a) k =
     (case ext ! (a - length h) of
        Obj ps \<Rightarrow> Some (lookup ps k)
      | Arr xs ps \<Rightarrow> Some (lookup ps k))"
  by (simp add: get_prop_def cell_at_young split: cell.splits)

lemma get_first_young:
  "length h \<le> a \<Longrightarrow> a < length h + length ext \<Longrightarrow>
   get_first (h @ ext) (Ref a) =
     (case ext ! (a - length h) of
        Obj ps \<Rightarrow> Some (lookup ps ''0'')
      | Arr xs ps \<Rightarrow> Some (case xs of [] \<Rightarrow> Undefined | x # rest \<Rightarrow> x))"
  by (simp add: get_first_def cell_at_young split: cell.splits)

lemma set_prop_young:
  "length h \<le> a \<Longrightarrow> a < length h + length ext \<Longrightarrow>
   set_prop (h @ ext) (Ref a) k x =
     Some (h @ ext[a - length h := put_key k x (ext ! (a - length h))])"
  by (simp add: set_prop_def cell_at_young list_update_append)

lemma call_push_young:
  "length h \<le> a \<Longrightarrow> a < length h + length ext \<Longrightarrow>
   call_push (h @ ext) (Ref a) x =
     (case ext ! (a - length h) of
        Arr xs ps \<Rightarrow> Some (h @ ext[a - length h := Arr (xs @ [x]) ps])
      | Obj ps \<Rightarrow> None)"
  by (simp add: call_push_def cell_at_young list_update_append split: cell.splits)

lemma new_object_nil: "new_object ps g = (Ref (length g), g @ [Obj ps])"
  by (simp add: new_object_def)

lemma new_object_young:
  "new_object ps (h @ ext) = (Ref (length h + length ext), h @ ext @ [Obj ps])"
  by (simp add: new_object_def)

lemma new_array_young:
  "new_array xs (h @ ext) = (Ref (length h + length ext), h @ ext @ [Arr xs []])"
  by (simp add: new_array_def)

lemma spread_old: "cell_at h c = Some (Arr C pc) \<Longrightarrow> spread (h @ ext) (Ref c) = C"
  by (simp add: spread_def cell_at_old)

lemma call_concat_old:
  "cell_at h a = Some (Arr A pa) \<Longrightarrow>
   call_concat (h @ ext) (Ref a) args =
     Some (Ref (length h + length ext),
           h @ ext @ [Arr (A @ concat (map (spread (h @ ext)) args)) []])"
  by (simp add: call_concat_def new_array_def cell_at_old)

lemma call_concat_SomeD:
  "call_concat h v args = Some (r, h') \<Longrightarrow> r = Ref (length h) \<and> (\<exists>xs. h' = h @ [Arr xs []])"
  by (auto simp: call_concat_def new_array_def split: val.splits option.splits cell.splits)

lemmas young =
  get_prop_young get_first_young set_prop_young call_push_young new_object_young new_array_young

section \<open>The heap after each step of the composition\<close>

lemma addChainpointHeader_run:
  assumes "formatDateISO8601NoMs (new_Date now (Some (uuidTime_v1 S hid))) = Some submitted"
  shows "addChainpointHeader now S (h @ [Obj []]) (Ref (length h)) hash (Str hid) =
    Some (Ref (length h),
      h @ [Obj [(''@context'', Str ''https://w3id.org/chainpoint/v3''),
                (''type'', Str ''Chainpoint''), (''hash'', hash), (''hash_id'', Str hid),
                (''hash_submitted_at'', Str submitted)]])"
  unfolding addChainpointHeader_def using assms
  by (simp add: young uuidTime_v1_call_def)

lemma addChainpointHeader_SomeD:
  assumes "addChainpointHeader now S (h @ [Obj []]) (Ref (length h)) hash hashId = Some (p, h')"
  shows "\<exists>time submitted. (\<exists>g. uuidTime_v1_call S g hashId = Some time) \<and>
     formatDateISO8601NoMs (new_Date now (Some time)) = Some submitted \<and>
     p = Ref (length h) \<and>
     h' = h @ [Obj [(''@context'', Str ''https://w3id.org/chainpoint/v3''),
                    (''type'', Str ''Chainpoint''), (''hash'', hash), (''hash_id'', hashId),
                    (''hash_submitted_at'', Str submitted)]]"
  using assms unfolding addChainpointHeader_def
  by (auto simp: young bind_eq_Some_conv)

lemma addCalendarBranch_run:
  assumes ao: "get_prop h aggState ''ops'' = Some (Ref a)"
    and a: "cell_at h a = Some (Arr A pa)"
    and co: "get_prop h calState ''ops'' = Some (Ref c)"
    and c: "cell_at h c = Some (Arr C pc)"
    and an: "get_prop h calState ''anchor'' = Some anchor"
    and aid: "get_prop h anchor ''anchor_id'' = Some anchor_id"
    and ur: "get_prop h anchor ''uris'' = Some uris"
  shows "addCalendarBranch (h @ [Obj pp]) (Ref (length h)) aggState calState =
    Some (Ref (length h),
      h @ [Obj (set_key ''branches'' (Ref (length h + 6)) pp),
           Obj [(''label'', Str ''cal_anchor_branch''), (''ops'', Ref (length h + 2))],
           Arr (A @ C @ [Ref (length h + 5)]) [],
           Obj [(''type'', Str ''cal''), (''anchor_id'', anchor_id), (''uris'', uris)],
           Arr [Ref (length h + 3)] [],
           Obj [(''anchors'', Ref (length h + 4))],
           Arr [Ref (Suc (length h))] []])"
  unfolding addCalendarBranch_def
  by (simp add: young call_concat_old[OF a] spread_old[OF c]
       get_prop_old[OF ao] get_prop_old[OF co] get_prop_old[OF an]
       get_prop_old[OF aid] get_prop_old[OF ur] eval_nat_numeral)

lemma addCalendarBranch_SomeD:
  assumes "addCalendarBranch g proof aggState calState = Some (p, h')"
  shows "\<exists>xs anchor_id uris. p = proof \<and>
     set_prop
       (g @ [Obj [(''label'', Str ''cal_anchor_branch''), (''ops'', Ref (Suc (length g)))],
             Arr (xs @ [Ref (length g + 4)]) [],
             Obj [(''type'', Str ''cal''), (''anchor_id'', anchor_id), (''uris'', uris)],
             Arr [Ref (length g + 2)] [],
             Obj [(''anchors'', Ref (length g + 3))],
             Arr [Ref (length g)] []])
       proof ''branches'' (Ref (length g + 5)) = Some h'"
  using assms unfolding addCalendarBranch_def
  apply (simp add: new_object_nil young)
  apply (auto simp: bind_eq_Some_conv young eval_nat_numeral dest!: call_concat_SomeD)
  apply blast
  done

lemma addBtcBranch_run:
  assumes ao: "get_prop h anchorAggState ''ops'' = Some (Ref a)"
    and a: "cell_at h a = Some (Arr A pa)"
    and to: "get_prop h btcTxState ''ops'' = Some (Ref t)"
    and t: "cell_at h t = Some (Arr T pt)"
    and ho: "get_prop h btcHeadState ''ops'' = Some (Ref b)"
    and b: "cell_at h b = Some (Arr B pb)"
    and an: "get_prop h btcHeadState ''anchor'' = Some anchor"
    and aid: "get_prop h anchor ''anchor_id'' = Some anchor_id"
    and pp: "lookup pp ''branches'' = Ref (length h + 6)"
  shows "addBtcBranch (h @ [Obj pp, Obj cb, c2, c3, c4, c5, Arr [Ref (Suc (length h))] []])
       (Ref (length h)) anchorAggState btcTxState btcHeadState =
    Some (Ref (length h),
      h @ [Obj pp, Obj (set_key ''branches'' (Ref (length h + 12)) cb), c2, c3, c4, c5,
           Arr [Ref (Suc (length h))] [],
           Obj [(''label'', Str ''btc_anchor_branch''), (''ops'', Ref (length h + 8))],
           Arr (A @ T @ B @ [Ref (length h + 11)]) [],
           Obj [(''type'', Str ''btc''), (''anchor_id'', anchor_id)],
           Arr [Ref (length h + 9)] [],
           Obj [(''anchors'', Ref (length h + 10))],
           Arr [Ref (length h + 7)] []])"
  unfolding addBtcBranch_def
  by (simp add: young call_concat_old[OF a] spread_old[OF t] spread_old[OF b] pp
       get_prop_old[OF ao] get_prop_old[OF to] get_prop_old[OF ho] get_prop_old[OF an]
       get_prop_old[OF aid] eval_nat_numeral)

lemma addBtcBranch_SomeD:
  assumes "addBtcBranch g proof anchorAggState btcTxState btcHeadState = Some (p, h')"
  shows "\<exists>xs anchor_id rootBranches rootBranch. p = proof \<and>
     get_prop
       (g @ [Obj [(''label'', Str ''btc_anchor_branch''), (''ops'', Ref (Suc (length g)))],
             Arr (xs @ [Ref (length g + 4)]) [],
             Obj [(''type'', Str ''btc''), (''anchor_id'', anchor_id)],
             Arr [Ref (length g + 2)] [],
             Obj [(''anchors'', Ref (length g + 3))]])
       proof ''branches'' = Some rootBranches \<and>
     get_first
       (g @ [Obj [(''label'', Str ''btc_anchor_branch''), (''ops'', Ref (Suc (length g)))],
             Arr (xs @ [Ref (length g + 4)]) [],
             Obj [(''type'', Str ''btc''), (''anchor_id'', anchor_id)],
             Arr [Ref (length g + 2)] [],
             Obj [(''anchors'', Ref (length g + 3))]])
       rootBranches = Some rootBranch \<and>
     set_prop
       (g @ [Obj [(''label'', Str ''btc_anchor_branch''), (''ops'', Ref (Suc (length g)))],
             Arr (xs @ [Ref (length g + 4)]) [],
             Obj [(''type'', Str ''btc''), (''anchor_id'', anchor_id)],
             Arr [Ref (length g + 2)] [],
             Obj [(''anchors'', Ref (length g + 3))],
             Arr [Ref (length g)] []])
       rootBranch ''branches'' (Ref (length g + 5)) = Some h'"
  using assms unfolding addBtcBranch_def
  apply (simp add: new_object_nil young)
  apply (auto simp: bind_eq_Some_conv young eval_nat_numeral dest!: call_concat_SomeD)
  apply blast
  done

lemma generateCALProof_compose_run:
  assumes hash: "get_prop h messageObj ''hash'' = Some hash"
    and hid: "get_prop h messageObj ''hash_id'' = Some (Str hid)"
    and time: "formatDateISO8601NoMs (new_Date now (Some (uuidTime_v1 S hid))) = Some submitted"
    and agg: "get_prop h messageObj ''agg_state'' = Some aggState"
    and cal: "get_prop h messageObj ''cal_state'' = Some calState"
    and ao: "get_prop h aggState ''ops'' = Some (Ref a)"
    and a: "cell_at h a = Some (Arr A pa)"
    and co: "get_prop h calState ''ops'' = Some (Ref c)"
    and c: "cell_at h c = Some (Arr C pc)"
    and an: "get_prop h calState ''anchor'' = Some anchor"
    and aid: "get_prop h anchor ''anchor_id'' = Some anchor_id"
    and ur: "get_prop h anchor ''uris'' = Some uris"
  shows "generateCALProof_compose now S h messageObj =
    Some (Ref (length h),
      h @ [Obj [(''@context'', Str ''https://w3id.org/chainpoint/v3''),
                (''type'', Str ''Chainpoint''), (''hash'', hash), (''hash_id'', Str hid),
                (''hash_submitted_at'', Str submitted), (''branches'', Ref (length h + 6))],
           Obj [(''label'', Str ''cal_anchor_branch''), (''ops'', Ref (length h + 2))],
           Arr (A @ C @ [Ref (length h + 5)]) [],
           Obj [(''type'', Str ''cal''), (''anchor_id'', anchor_id), (''uris'', uris)],
           Arr [Ref (length h + 3)] [],
           Obj [(''anchors'', Ref (length h + 4))],
           Arr [Ref (Suc (length h))] []])"
  unfolding generateCALProof_compose_def
  by (simp add: new_object_nil get_prop_old[OF hash] get_prop_old[OF hid]
      get_prop_old[OF agg] get_prop_old[OF cal]
      addChainpointHeader_run[OF time] addCalendarBranch_run[OF ao a co c an aid ur])

lemma generateCALProof_compose_SomeD:
  assumes "generateCALProof_compose now S h messageObj = Some (p, h')"
  shows "\<exists>hash hashId time submitted xs anchor_id uris.
    get_prop (h @ [Obj []]) messageObj ''hash_id'' = Some hashId \<and>
    (\<exists>g. uuidTime_v1_call S g hashId = Some time) \<and>
    formatDateISO8601NoMs (new_Date now (Some time)) = Some submitted \<and>
    p = Ref (length h) \<and>
    h' = h @ [Obj [(''@context'', Str ''https://w3id.org/chainpoint/v3''),
                   (''type'', Str ''Chainpoint''), (''hash'', hash), (''hash_id'', hashId),
                   (''hash_submitted_at'', Str submitted), (''branches'', Ref (length h + 6))],
              Obj [(''label'', Str ''cal_anchor_branch''), (''ops'', Ref (length h + 2))],
              Arr (xs @ [Ref (length h + 5)]) [],
              Obj [(''type'', Str ''cal''), (''anchor_id'', anchor_id), (''uris'', uris)],
              Arr [Ref (length h + 3)] [],
              Obj [(''anchors'', Ref (length h + 4))],
              Arr [Ref (Suc (length h))] []]"
  using assms unfolding generateCALProof_compose_def
  apply (simp add: new_object_nil bind_eq_Some_conv)
  apply (auto dest!: addChainpointHeader_SomeD addCalendarBranch_SomeD
              simp: young eval_nat_numeral)
  apply blast
  done

lemma generateBTCProof_compose_run:
  assumes hash: "get_prop h messageObj ''hash'' = Some hash"
    and hid: "get_prop h messageObj ''hash_id'' = Some (Str hid)"
    and time: "formatDateISO8601NoMs (new_Date now (Some (uuidTime_v1 S hid))) = Some submitted"
    and agg: "get_prop h messageObj ''agg_state'' = Some aggState"
    and cal: "get_prop h messageObj ''cal_state'' = Some calState"
    and ao: "get_prop h aggState ''ops'' = Some (Ref a)"
    and a: "cell_at h a = Some (Arr A pa)"
    and co: "get_prop h calState ''ops'' = Some (Ref c)"
    and c: "cell_at h c = Some (Arr C pc)"
    and an: "get_prop h calState ''anchor'' = Some anchor"
    and aid: "get_prop h anchor ''anchor_id'' = Some anchor_id"
    and ur: "get_prop h anchor ''uris'' = Some uris"
    and aagg: "get_prop h messageObj ''anchor_agg_state'' = Some anchorAggState"
    and tx: "get_prop h messageObj ''btctx_state'' = Some btcTxState"
    and hd: "get_prop h messageObj ''btchead_state'' = Some btcHeadState"
    and aao: "get_prop h anchorAggState ''ops'' = Some (Ref aa)"
    and aa: "cell_at h aa = Some (Arr AA paa)"
    and txo: "get_prop h btcTxState ''ops'' = Some (Ref t)"
    and t: "cell_at h t = Some (Arr T pt)"
    and hdo: "get_prop h btcHeadState ''ops'' = Some (Ref b)"
    and b: "cell_at h b = Some (Arr B pb)"
    and ban: "get_prop h btcHeadState ''anchor'' = Some btcAnchor"
    and baid: "get_prop h btcAnchor ''anchor_id'' = Some btc_anchor_id"
  shows "generateBTCProof_compose now S h messageObj =
    Some (Ref (length h),
      h @ [Obj [(''@context'', Str ''https://w3id.org/chainpoint/v3''),
                (''type'', Str ''Chainpoint''), (''hash'', hash), (''hash_id'', Str hid),
                (''hash_submitted_at'', Str submitted), (''branches'', Ref (length h + 6))],
           Obj [(''label'', Str ''cal_anchor_branch''), (''ops'', Ref (length h + 2)),
                (''branches'', Ref (length h + 12))],
           Arr (A @ C @ [Ref (length h + 5)]) [],
           Obj [(''type'', Str ''cal''), (''anchor_id'', anchor_id), (''uris'', uris)],
           Arr [Ref (length h + 3)] [],
           Obj [(''anchors'', Ref (length h + 4))],
           Arr [Ref (Suc (length h))] [],
           Obj [(''label'', Str ''btc_anchor_branch''), (''ops'', Ref (length h + 8))],
           Arr (AA @ T @ B @ [Ref (length h + 11)]) [],
           Obj [(''type'', Str ''btc''), (''anchor_id'', btc_anchor_id)],
           Arr [Ref (length h + 9)] [],
           Obj [(''anchors'', Ref (length h + 10))],
           Arr [Ref (length h + 7)] []])"
  unfolding generateBTCProof_compose_def
  by (simp add: new_object_nil get_prop_old[OF hash] get_prop_old[OF hid]
      get_prop_old[OF agg] get_prop_old[OF cal] get_prop_old[OF aagg] get_prop_old[OF tx]
      get_prop_old[OF hd]
      addChainpointHeader_run[OF time] addCalendarBranch_run[OF ao a co c an aid ur]
      addBtcBranch_run[OF aao aa txo t hdo b ban baid])

lemma generateBTCProof_compose_SomeD:
  assumes "generateBTCProof_compose now S h messageObj = Some (p, h')"
  shows "\<exists>hash hashId time submitted xs anchor_id uris ys btc_anchor_id.
    get_prop (h @ [Obj []]) messageObj ''hash_id'' = Some hashId \<and>
    (\<exists>g. uuidTime_v1_call S g hashId = Some time) \<and>
    formatDateISO8601NoMs (new_Date now (Some time)) = Some submitted \<and>
    p = Ref (length h) \<and>
    h' = h @ [Obj [(''@context'', Str ''https://w3id.org/chainpoint/v3''),
                (''type'', Str ''Chainpoint''), (''hash'', hash), (''hash_id'', hashId),
                (''hash_submitted_at'', Str submitted), (''branches'', Ref (length h + 6))],
           Obj [(''label'', Str ''cal_anchor_branch''), (''ops'', Ref (length h + 2)),
                (''branches'', Ref (length h + 12))],
           Arr (xs @ [Ref (length h + 5)]) [],
           Obj [(''type'', Str ''cal''), (''anchor_id'', anchor_id), (''uris'', uris)],
           Arr [Ref (length h + 3)] [],
           Obj [(''anchors'', Ref (length h + 4))],
           Arr [Ref (Suc (length h))] [],
           Obj [(''label'', Str ''btc_anchor_branch''), (''ops'', Ref (length h + 8))],
           Arr (ys @ [Ref (length h + 11)]) [],
           Obj [(''type'', Str ''btc''), (''anchor_id'', btc_anchor_id)],
           Arr [Ref (length h + 9)] [],
           Obj [(''anchors'', Ref (length h + 10))],
           Arr [Ref (length h + 7)] []]"
  using assms unfolding generateBTCProof_compose_def
  apply (simp add: new_object_nil bind_eq_Some_conv)
  apply (auto dest!: addChainpointHeader_SomeD addCalendarBranch_SomeD addBtcBranch_SomeD
              simp: young eval_nat_numeral)
  apply blast
  done

section \<open>The format of the time of submission\<close>

lemma length_pad: "length (pad w n) = w"
  by (induction w arbitrary: n) simp_all

text \<open>
  For a date in the years 0 to 9999 the result of \<^verbatim>\<open>formatDateISO8601NoMs\<close> is
  \<^verbatim>\<open>YYYY-MM-DDTHH:mm:ssZ\<close>: the ISO 8601 form of the date without the milliseconds.
\<close>

lemma formatDateISO8601NoMs_shape:
  assumes date: "civil_from_days (t div 86400000) = (y, m, d)"
    and year: "0 \<le> y" "y \<le> 9999"
    and range: "\<bar>t\<bar> \<le> 8640000000000000"
  shows "formatDateISO8601NoMs (new_Date now (Some (Fin t))) =
    Some (pad 4 (nat y) @ ''-'' @ pad 2 (nat m) @ ''-'' @ pad 2 (nat d) @ ''T'' @
          pad 2 (nat (t mod 86400000) div 3600000) @ '':'' @
          pad 2 (nat (t mod 86400000) div 60000 mod 60) @ '':'' @
          pad 2 (nat (t mod 86400000) div 1000 mod 60) @ ''Z'')"
  unfolding formatDateISO8601NoMs_def toISOString_def
  using date year range by (simp add: length_pad Let_def)

lemma seconds_of_day:
  "(n::nat) div 3600000 = n div 1000 div 3600"
  "(n::nat) div 60000 = n div 1000 div 60"
  by (simp_all add: div_mult2_eq[symmetric])

lemma iso8601_seconds_shape:
  assumes date: "civil_from_days (t div 86400000) = (y, m, d)"
  shows "iso8601_seconds t =
    pad 4 (nat y) @ ''-'' @ pad 2 (nat m) @ ''-'' @ pad 2 (nat d) @ ''T'' @
    pad 2 (nat (t mod 86400000) div 3600000) @ '':'' @
    pad 2 (nat (t mod 86400000) div 60000 mod 60) @ '':'' @
    pad 2 (nat (t mod 86400000) div 1000 mod 60) @ ''Z''"
  unfolding iso8601_seconds_def Let_def
  using date by (simp add: seconds_of_day)

lemma formatDateISO8601NoMs_range:
  assumes "formatDateISO8601NoMs (new_Date now (Some (Fin t))) = Some s"
  shows "\<bar>t\<bar> \<le> 8640000000000000"
proof (rule ccontr)
  assume "\<not> \<bar>t\<bar> \<le> 8640000000000000"
  then have "new_Date now (Some (Fin t)) = NaN"
    by simp
  with assms show False
    by (simp add: formatDateISO8601NoMs_def toISOString_def)
qed

lemma formatDateISO8601NoMs_iso8601:
  assumes fmt: "formatDateISO8601NoMs (new_Date now (Some (Fin t))) = Some s"
    and year: "0 \<le> fst (civil_from_days (t div 86400000))"
      "fst (civil_from_days (t div 86400000)) \<le> 9999"
  shows "s = iso8601_seconds t"
proof -
  obtain y m d where date: "civil_from_days (t div 86400000) = (y, m, d)"
    by (cases "civil_from_days (t div 86400000)") auto
  from year date have y: "0 \<le> y" "y \<le> 9999"
    by simp_all
  from formatDateISO8601NoMs_shape[OF date y formatDateISO8601NoMs_range[OF fmt], of now] fmt
    iso8601_seconds_shape[OF date]
  show ?thesis
    by simp
qed

section \<open>The sample, evaluated\<close>

lemma pad_numerals:
  "pad 2 n = [digit (n div 10), digit n]"
  "pad 3 n = [digit (n div 10 div 10), digit (n div 10), digit n]"
  "pad 4 n = [digit (n div 10 div 10 div 10), digit (n div 10 div 10), digit (n div 10), digit n]"
proof -
  have n: "(2::nat) = Suc (Suc 0)" "(3::nat) = Suc (Suc (Suc 0))"
    "(4::nat) = Suc (Suc (Suc (Suc 0)))"
    by simp_all
  show "pad 2 n = [digit (n div 10), digit n]" unfolding n(1) by simp
  show "pad 3 n = [digit (n div 10 div 10), digit (n div 10), digit n]" unfolding n(2) by simp
  show "pad 4 n = [digit (n div 10 div 10 div 10), digit (n div 10 div 10), digit (n div 10), digit n]"
    unfolding n(3) by simp
qed

text \<open>The example in the comment of \<^verbatim>\<open>formatDateISO8601NoMs\<close>.\<close>

lemma sample_time:
  "formatDateISO8601NoMs (new_Date now (Some (Fin 1489965872123))) = Some ''2017-03-19T23:24:32Z''"
  unfolding formatDateISO8601NoMs_def toISOString_def civil_from_days_def Let_def
  by (simp add: pad_numerals digit_def)

lemma sample_submitted:
  "formatDateISO8601NoMs (new_Date now (Some (uuidTime_v1 (sample_services v e1 e2) sample_id))) =
     Some ''2017-03-19T23:24:32Z''"
  using sample_time by (simp add: sample_services_def)

lemmas sample_reads = sample_heap_def sample_id_def get_prop_def cell_at_def ops_of_def

lemma sample_cal_compose:
  "\<exists>h'. generateCALProof_compose sample_now (sample_services v e1 e2) sample_heap (Ref 0) =
      Some (Ref (length sample_heap), h')"
  by (rule exI, rule generateCALProof_compose_run[where hid = sample_id
        and hash = "Str ''ab12''" and aggState = "Ref 1" and calState = "Ref 5"
        and anchor = "Ref 8" and a = 2 and c = 6 and A = "[Ref 3, Ref 4]" and pa = "[]"
        and C = "[Ref 7]" and pc = "[]" and anchor_id = "Str ''42''" and uris = "Ref 9"])
     (simp_all add: sample_reads sample_submitted[unfolded sample_id_def])

lemma sample_btc_compose:
  "\<exists>h'. generateBTCProof_compose sample_now (sample_services v e1 e2) sample_heap (Ref 0) =
      Some (Ref (length sample_heap), h')"
  by (rule exI, rule generateBTCProof_compose_run[where hid = sample_id
        and hash = "Str ''ab12''" and aggState = "Ref 1" and calState = "Ref 5"
        and anchor = "Ref 8" and a = 2 and c = 6 and A = "[Ref 3, Ref 4]" and pa = "[]"
        and C = "[Ref 7]" and pc = "[]" and anchor_id = "Str ''42''" and uris = "Ref 9"
        and anchorAggState = "Ref 10" and btcTxState = "Ref 13" and btcHeadState = "Ref 16"
        and btcAnchor = "Ref 19" and aa = 11 and t = 14 and b = 17 and AA = "[Ref 12]"
        and paa = "[]" and T = "[Ref 15]" and pt = "[]" and B = "[Ref 18]" and pb = "[]"
        and btc_anchor_id = "Str ''484001''"])
     (simp_all add: sample_reads sample_submitted[unfolded sample_id_def])

lemma sample_no_client_submitted:
  "formatDateISO8601NoMs (new_Date now (Some (uuidTime_v1 sample_services_no_client sample_id))) =
     Some ''2017-03-19T23:24:32Z''"
  using sample_time by (simp add: sample_services_no_client_def sample_services_def)

lemma sample_no_client_compose:
  "\<exists>h'. generateCALProof_compose sample_now sample_services_no_client sample_heap (Ref 0) =
      Some (Ref (length sample_heap), h')"
  "\<exists>h'. generateBTCProof_compose sample_now sample_services_no_client sample_heap (Ref 0) =
      Some (Ref (length sample_heap), h')"
   apply (rule exI, rule generateCALProof_compose_run[where hid = sample_id
        and hash = "Str ''ab12''" and aggState = "Ref 1" and calState = "Ref 5"
        and anchor = "Ref 8" and a = 2 and c = 6 and A = "[Ref 3, Ref 4]" and pa = "[]"
        and C = "[Ref 7]" and pc = "[]" and anchor_id = "Str ''42''" and uris = "Ref 9"])
              apply (simp_all add: sample_reads sample_no_client_submitted[unfolded sample_id_def])[12]
  apply (rule exI, rule generateBTCProof_compose_run[where hid = sample_id
        and hash = "Str ''ab12''" and aggState = "Ref 1" and calState = "Ref 5"
        and anchor = "Ref 8" and a = 2 and c = 6 and A = "[Ref 3, Ref 4]" and pa = "[]"
        and C = "[Ref 7]" and pc = "[]" and anchor_id = "Str ''42''" and uris = "Ref 9"
        and anchorAggState = "Ref 10" and btcTxState = "Ref 13" and btcHeadState = "Ref 16"
        and btcAnchor = "Ref 19" and aa = 11 and t = 14 and b = 17 and AA = "[Ref 12]"
        and paa = "[]" and T = "[Ref 15]" and pt = "[]" and B = "[Ref 18]" and pb = "[]"
        and btc_anchor_id = "Str ''484001''"])
                      apply (simp_all add: sample_reads sample_no_client_submitted[unfolded sample_id_def])
  done

section \<open>The calendar branch\<close>

text \<open>
  C1. For a \<^verbatim>\<open>cal\<close> event (a message object with a hash, a hash id that carries a
  time, an aggregation fragment with the operations \<open>A\<close> and a calendar fragment with the
  operations \<open>C\<close> and an anchor reference) the composition returns a document with
  exactly one root branch. The operations of the root branch are \<open>A\<close>, then \<open>C\<close>, then
  one element \<^verbatim>\<open>{anchors: [{type: 'cal', anchor_id, uris}]}\<close> whose anchor id and uris are
  those of the calendar fragment's anchor. The root branch has the properties
  \<^verbatim>\<open>label\<close> and \<^verbatim>\<open>ops\<close> and no other: it carries no sub-branch.
\<close>

theorem cal_root_branch:
  assumes hash: "get_prop h messageObj ''hash'' = Some hash"
    and hid: "get_prop h messageObj ''hash_id'' = Some (Str hid)"
    and time: "formatDateISO8601NoMs (new_Date now (Some (uuidTime_v1 S hid))) = Some submitted"
    and agg: "get_prop h messageObj ''agg_state'' = Some aggState"
    and aops: "ops_of h aggState = Some A"
    and cal: "get_prop h messageObj ''cal_state'' = Some calState"
    and cops: "ops_of h calState = Some C"
    and an: "get_prop h calState ''anchor'' = Some anchor"
    and aid: "get_prop h anchor ''anchor_id'' = Some anchor_id"
    and ur: "get_prop h anchor ''uris'' = Some uris"
  shows "\<exists>proof h' branches root ops element anchors calendarAnchor.
     generateCALProof_compose now S h messageObj = Some (proof, h') \<and>
     get_prop h' proof ''branches'' = Some (Ref branches) \<and>
     cell_at h' branches = Some (Arr [Ref root] []) \<and>
     cell_at h' root = Some (Obj [(''label'', Str ''cal_anchor_branch''), (''ops'', Ref ops)]) \<and>
     cell_at h' ops = Some (Arr (A @ C @ [Ref element]) []) \<and>
     cell_at h' element = Some (Obj [(''anchors'', Ref anchors)]) \<and>
     cell_at h' anchors = Some (Arr [Ref calendarAnchor] []) \<and>
     cell_at h' calendarAnchor =
       Some (Obj [(''type'', Str ''cal''), (''anchor_id'', anchor_id), (''uris'', uris)])"
proof -
  from ops_of_SomeD[OF aops] obtain a pa
    where a: "get_prop h aggState ''ops'' = Some (Ref a)" "cell_at h a = Some (Arr A pa)"
    by blast
  from ops_of_SomeD[OF cops] obtain c pc
    where c: "get_prop h calState ''ops'' = Some (Ref c)" "cell_at h c = Some (Arr C pc)"
    by blast
  note run = generateCALProof_compose_run[OF hash hid time agg cal a c an aid ur]
  show ?thesis
    unfolding run
    by (simp add: get_prop_young cell_at_young eval_nat_numeral)
qed

theorem cal_root_branch_witness:
  "\<exists>proof h' branches root ops element anchors calendarAnchor.
     generateCALProof_compose sample_now (sample_services True None None) sample_heap (Ref 0) =
       Some (proof, h') \<and>
     get_prop h' proof ''branches'' = Some (Ref branches) \<and>
     cell_at h' branches = Some (Arr [Ref root] []) \<and>
     cell_at h' root = Some (Obj [(''label'', Str ''cal_anchor_branch''), (''ops'', Ref ops)]) \<and>
     cell_at h' ops = Some (Arr ([Ref 3, Ref 4] @ [Ref 7] @ [Ref element]) []) \<and>
     cell_at h' element = Some (Obj [(''anchors'', Ref anchors)]) \<and>
     cell_at h' anchors = Some (Arr [Ref calendarAnchor] []) \<and>
     cell_at h' calendarAnchor =
       Some (Obj [(''type'', Str ''cal''), (''anchor_id'', Str ''42''), (''uris'', Ref 9)])"
  by (rule cal_root_branch[where hid = sample_id and hash = "Str ''ab12''"
        and aggState = "Ref 1" and calState = "Ref 5" and anchor = "Ref 8"])
     (simp_all add: sample_reads sample_submitted[unfolded sample_id_def])

section \<open>The chain-anchor branch\<close>

text \<open>
  C2. For a \<^verbatim>\<open>btc\<close> event (a \<^verbatim>\<open>cal\<close> event that also has an anchor aggregation fragment
  with the operations \<open>AA\<close>, a transaction fragment with the operations \<open>TX\<close> and a
  block header fragment with the operations \<open>HD\<close> and an anchor reference) the
  composition returns a document with exactly one root branch, labelled
  \<^verbatim>\<open>cal_anchor_branch\<close>, and exactly one sub-branch under it, labelled
  \<^verbatim>\<open>btc_anchor_branch\<close>. The operations of the sub-branch are \<open>AA\<close>, then \<open>TX\<close>, then
  \<open>HD\<close>, then one element \<^verbatim>\<open>{anchors: [{type: 'btc', anchor_id}]}\<close> whose anchor id is
  that of the block header fragment's anchor.
\<close>

theorem btc_sub_branch:
  assumes hash: "get_prop h messageObj ''hash'' = Some hash"
    and hid: "get_prop h messageObj ''hash_id'' = Some (Str hid)"
    and time: "formatDateISO8601NoMs (new_Date now (Some (uuidTime_v1 S hid))) = Some submitted"
    and agg: "get_prop h messageObj ''agg_state'' = Some aggState"
    and aops: "ops_of h aggState = Some A"
    and cal: "get_prop h messageObj ''cal_state'' = Some calState"
    and cops: "ops_of h calState = Some C"
    and an: "get_prop h calState ''anchor'' = Some anchor"
    and aid: "get_prop h anchor ''anchor_id'' = Some anchor_id"
    and ur: "get_prop h anchor ''uris'' = Some uris"
    and aagg: "get_prop h messageObj ''anchor_agg_state'' = Some anchorAggState"
    and aaops: "ops_of h anchorAggState = Some AA"
    and tx: "get_prop h messageObj ''btctx_state'' = Some btcTxState"
    and txops: "ops_of h btcTxState = Some TX"
    and hd: "get_prop h messageObj ''btchead_state'' = Some btcHeadState"
    and hdops: "ops_of h btcHeadState = Some HD"
    and ban: "get_prop h btcHeadState ''anchor'' = Some btcHeadAnchor"
    and baid: "get_prop h btcHeadAnchor ''anchor_id'' = Some btc_anchor_id"
  shows "\<exists>proof h' branches root rootOps subBranches sub ops element anchors btcAnchor.
     generateBTCProof_compose now S h messageObj = Some (proof, h') \<and>
     get_prop h' proof ''branches'' = Some (Ref branches) \<and>
     cell_at h' branches = Some (Arr [Ref root] []) \<and>
     cell_at h' root =
       Some (Obj [(''label'', Str ''cal_anchor_branch''), (''ops'', Ref rootOps),
                  (''branches'', Ref subBranches)]) \<and>
     cell_at h' subBranches = Some (Arr [Ref sub] []) \<and>
     cell_at h' sub = Some (Obj [(''label'', Str ''btc_anchor_branch''), (''ops'', Ref ops)]) \<and>
     cell_at h' ops = Some (Arr (AA @ TX @ HD @ [Ref element]) []) \<and>
     cell_at h' element = Some (Obj [(''anchors'', Ref anchors)]) \<and>
     cell_at h' anchors = Some (Arr [Ref btcAnchor] []) \<and>
     cell_at h' btcAnchor = Some (Obj [(''type'', Str ''btc''), (''anchor_id'', btc_anchor_id)])"
proof -
  from ops_of_SomeD[OF aops] obtain a pa
    where a: "get_prop h aggState ''ops'' = Some (Ref a)" "cell_at h a = Some (Arr A pa)"
    by blast
  from ops_of_SomeD[OF cops] obtain c pc
    where c: "get_prop h calState ''ops'' = Some (Ref c)" "cell_at h c = Some (Arr C pc)"
    by blast
  from ops_of_SomeD[OF aaops] obtain aa paa
    where aa: "get_prop h anchorAggState ''ops'' = Some (Ref aa)"
      "cell_at h aa = Some (Arr AA paa)"
    by blast
  from ops_of_SomeD[OF txops] obtain t pt
    where t: "get_prop h btcTxState ''ops'' = Some (Ref t)" "cell_at h t = Some (Arr TX pt)"
    by blast
  from ops_of_SomeD[OF hdops] obtain b pb
    where b: "get_prop h btcHeadState ''ops'' = Some (Ref b)" "cell_at h b = Some (Arr HD pb)"
    by blast
  note run = generateBTCProof_compose_run[OF hash hid time agg cal a c an aid ur
      aagg tx hd aa t b ban baid]
  show ?thesis
    unfolding run
    by (simp add: get_prop_young cell_at_young eval_nat_numeral)
qed

theorem btc_sub_branch_witness:
  "\<exists>proof h' branches root rootOps subBranches sub ops element anchors btcAnchor.
     generateBTCProof_compose sample_now (sample_services True None None) sample_heap (Ref 0) =
       Some (proof, h') \<and>
     get_prop h' proof ''branches'' = Some (Ref branches) \<and>
     cell_at h' branches = Some (Arr [Ref root] []) \<and>
     cell_at h' root =
       Some (Obj [(''label'', Str ''cal_anchor_branch''), (''ops'', Ref rootOps),
                  (''branches'', Ref subBranches)]) \<and>
     cell_at h' subBranches = Some (Arr [Ref sub] []) \<and>
     cell_at h' sub = Some (Obj [(''label'', Str ''btc_anchor_branch''), (''ops'', Ref ops)]) \<and>
     cell_at h' ops = Some (Arr ([Ref 12] @ [Ref 15] @ [Ref 18] @ [Ref element]) []) \<and>
     cell_at h' element = Some (Obj [(''anchors'', Ref anchors)]) \<and>
     cell_at h' anchors = Some (Arr [Ref btcAnchor] []) \<and>
     cell_at h' btcAnchor = Some (Obj [(''type'', Str ''btc''), (''anchor_id'', Str ''484001'')])"
  by (rule btc_sub_branch[where hid = sample_id and hash = "Str ''ab12''"
        and aggState = "Ref 1" and calState = "Ref 5" and anchor = "Ref 8"
        and A = "[Ref 3, Ref 4]" and C = "[Ref 7]" and anchor_id = "Str ''42''"
        and uris = "Ref 9" and anchorAggState = "Ref 10" and btcTxState = "Ref 13"
        and btcHeadState = "Ref 16" and btcHeadAnchor = "Ref 19"])
     (simp_all add: sample_reads sample_submitted[unfolded sample_id_def])

section \<open>The fragments of the event after composition\<close>

lemma elements_kept_trans: "elements_kept h g \<Longrightarrow> elements_kept g k \<Longrightarrow> elements_kept h k"
  unfolding elements_kept_def by blast

lemma elements_kept_append: "elements_kept h (h @ ext)"
  by (simp add: elements_kept_def cell_at_old)

lemma set_prop_elements_kept: "set_prop g v k x = Some g' \<Longrightarrow> elements_kept g g'"
  by (cases v)
     (auto simp: set_prop_def elements_kept_def cell_at_def nth_list_update
           split: option.splits if_splits)

lemma cells_kept_append: "cells_kept h (h @ ext)"
  by (simp add: cells_kept_def cell_at_old)

text \<open>Where every cell is kept, every fragment has the operations it had.\<close>

lemma cells_kept_ops_of:
  assumes "cells_kept h h'" and "ops_of h state = Some xs"
  shows "ops_of h' state = Some xs"
proof -
  from ops_of_SomeD[OF assms(2)] obtain a ps
    where ops: "get_prop h state ''ops'' = Some (Ref a)" and a: "cell_at h a = Some (Arr xs ps)"
    by blast
  from assms(1) a have a': "cell_at h' a = Some (Arr xs ps)"
    by (simp add: cells_kept_def)
  from assms(1) ops have "get_prop h' state ''ops'' = Some (Ref a)"
    by (cases state) (auto simp: get_prop_def cells_kept_def split: option.splits cell.splits)
  with a' show ?thesis
    by (simp add: ops_of_def)
qed

lemma set_prop_append_elements_kept:
  "set_prop (h @ ext) v k x = Some h' \<Longrightarrow> elements_kept h h'"
  by (rule elements_kept_trans[OF elements_kept_append set_prop_elements_kept])

text \<open>
  C10. Composition does not change the fragments of the event. Whatever the arguments,
  when \<^verbatim>\<open>addCalendarBranch\<close> or \<^verbatim>\<open>addBtcBranch\<close> returns, every array that was in the
  heap before the call has the elements it had (\<^verbatim>\<open>concat\<close> makes a new array, and
  \<^verbatim>\<open>push\<close> is called on that new array only). When the composition of a generator
  returns, every cell that was in the heap before it, so every object and every
  operation list of the message, is what it was: what is written is written to the
  new document, its new branches and their new arrays.
\<close>

theorem composition_keeps_fragments:
  "(addCalendarBranch h doc aggState calState = Some (p, h') \<longrightarrow> elements_kept h h') \<and>
   (addBtcBranch h doc anchorAggState btcTxState btcHeadState = Some (p, h') \<longrightarrow>
      elements_kept h h') \<and>
   (generateCALProof_compose now S h messageObj = Some (p, h') \<longrightarrow> cells_kept h h') \<and>
   (generateBTCProof_compose now S h messageObj = Some (p, h') \<longrightarrow> cells_kept h h')"
proof (intro conjI impI)
  assume "addCalendarBranch h doc aggState calState = Some (p, h')"
  from addCalendarBranch_SomeD[OF this] show "elements_kept h h'"
    by (elim exE conjE) (rule set_prop_append_elements_kept)
next
  assume "addBtcBranch h doc anchorAggState btcTxState btcHeadState = Some (p, h')"
  from addBtcBranch_SomeD[OF this] show "elements_kept h h'"
    by (elim exE conjE) (rule set_prop_append_elements_kept)
next
  assume "generateCALProof_compose now S h messageObj = Some (p, h')"
  from generateCALProof_compose_SomeD[OF this] show "cells_kept h h'"
    by (elim exE conjE) (simp add: cells_kept_append)
next
  assume "generateBTCProof_compose now S h messageObj = Some (p, h')"
  from generateBTCProof_compose_SomeD[OF this] show "cells_kept h h'"
    by (elim exE conjE) (simp add: cells_kept_append)
qed


theorem composition_keeps_fragments_witness:
  "(\<exists>p h'. addCalendarBranch (sample_heap @ [Obj []]) (Ref (length sample_heap)) (Ref 1) (Ref 5) =
        Some (p, h') \<and>
      elements_kept (sample_heap @ [Obj []]) h') \<and>
   (\<exists>p g h'. generateCALProof_compose sample_now (sample_services True None None) sample_heap (Ref 0) =
        Some (p, g) \<and>
      addBtcBranch g p (Ref 10) (Ref 13) (Ref 16) = Some (p, h') \<and> elements_kept g h') \<and>
   (\<exists>p h'. generateCALProof_compose sample_now (sample_services True None None) sample_heap (Ref 0) =
        Some (p, h') \<and>
      cells_kept sample_heap h') \<and>
   (\<exists>p h'. generateBTCProof_compose sample_now (sample_services True None None) sample_heap (Ref 0) =
        Some (p, h') \<and>
      cells_kept sample_heap h')"
proof (intro conjI)
  have "\<exists>h'. addCalendarBranch (sample_heap @ [Obj []]) (Ref (length sample_heap)) (Ref 1) (Ref 5) =
      Some (Ref (length sample_heap), h')"
    by (rule exI, rule addCalendarBranch_run[where anchor = "Ref 8" and a = 2 and c = 6
          and A = "[Ref 3, Ref 4]" and pa = "[]" and C = "[Ref 7]" and pc = "[]"
          and anchor_id = "Str ''42''" and uris = "Ref 9"])
       (simp_all add: sample_reads)
  then obtain h' where r:
    "addCalendarBranch (sample_heap @ [Obj []]) (Ref (length sample_heap)) (Ref 1) (Ref 5) =
      Some (Ref (length sample_heap), h')" ..
  with composition_keeps_fragments[where h = "sample_heap @ [Obj []]"
      and doc = "Ref (length sample_heap)" and aggState = "Ref 1" and calState = "Ref 5"
      and p = "Ref (length sample_heap)" and h' = h']
  have "elements_kept (sample_heap @ [Obj []]) h'" by simp
  with r show "\<exists>p h'. addCalendarBranch (sample_heap @ [Obj []]) (Ref (length sample_heap))
      (Ref 1) (Ref 5) = Some (p, h') \<and> elements_kept (sample_heap @ [Obj []]) h'"
    by blast
next
  let ?S = "sample_services True None None"
  have "\<exists>g. generateCALProof_compose sample_now ?S sample_heap (Ref 0) = Some (Ref (length sample_heap), g) \<and>
      (\<exists>h'. addBtcBranch g (Ref (length sample_heap)) (Ref 10) (Ref 13) (Ref 16) =
         Some (Ref (length sample_heap), h'))"
    apply (rule exI, rule conjI)
     apply (rule generateCALProof_compose_run[where hid = sample_id and hash = "Str ''ab12''"
          and aggState = "Ref 1" and calState = "Ref 5" and anchor = "Ref 8"
          and a = 2 and c = 6 and A = "[Ref 3, Ref 4]" and pa = "[]"
          and C = "[Ref 7]" and pc = "[]" and anchor_id = "Str ''42''" and uris = "Ref 9"])
               apply (simp_all add: sample_reads sample_submitted[unfolded sample_id_def])[12]
    apply (rule exI, rule addBtcBranch_run[where anchor = "Ref 19" and a = 11 and t = 14
          and b = 17 and A = "[Ref 12]" and pa = "[]" and T = "[Ref 15]" and pt = "[]"
          and B = "[Ref 18]" and pb = "[]" and anchor_id = "Str ''484001''"])
            apply (simp_all add: sample_reads)
    done
  then obtain g h' where r:
    "generateCALProof_compose sample_now ?S sample_heap (Ref 0) = Some (Ref (length sample_heap), g)"
    "addBtcBranch g (Ref (length sample_heap)) (Ref 10) (Ref 13) (Ref 16) =
         Some (Ref (length sample_heap), h')"
    by blast
  with composition_keeps_fragments[where h = g and doc = "Ref (length sample_heap)"
      and anchorAggState = "Ref 10" and btcTxState = "Ref 13" and btcHeadState = "Ref 16"
      and p = "Ref (length sample_heap)" and h' = h']
  have "elements_kept g h'" by simp
  with r show "\<exists>p g h'. generateCALProof_compose sample_now ?S sample_heap (Ref 0) = Some (p, g) \<and>
      addBtcBranch g p (Ref 10) (Ref 13) (Ref 16) = Some (p, h') \<and> elements_kept g h'"
    by blast
next
  let ?S = "sample_services True None None"
  from sample_cal_compose obtain h' where r:
    "generateCALProof_compose sample_now ?S sample_heap (Ref 0) = Some (Ref (length sample_heap), h')" ..
  with composition_keeps_fragments[where h = sample_heap and S = ?S and messageObj = "Ref 0"
      and p = "Ref (length sample_heap)" and h' = h']
  have "cells_kept sample_heap h'" by simp
  with r show "\<exists>p h'. generateCALProof_compose sample_now ?S sample_heap (Ref 0) = Some (p, h') \<and>
      cells_kept sample_heap h'"
    by blast
next
  let ?S = "sample_services True None None"
  from sample_btc_compose obtain h' where r:
    "generateBTCProof_compose sample_now ?S sample_heap (Ref 0) = Some (Ref (length sample_heap), h')" ..
  with composition_keeps_fragments[where h = sample_heap and S = ?S and messageObj = "Ref 0"
      and p = "Ref (length sample_heap)" and h' = h']
  have "cells_kept sample_heap h'" by simp
  with r show "\<exists>p h'. generateBTCProof_compose sample_now ?S sample_heap (Ref 0) = Some (p, h') \<and>
      cells_kept sample_heap h'"
    by blast
qed


section \<open>The time of submission\<close>

lemma compose_extends:
  assumes "generateCALProof_compose now S h m = Some (p, h') \<or>
           generateBTCProof_compose now S h m = Some (p, h')"
  shows "\<exists>ext. h' = h @ ext"
  using assms
proof
  assume "generateCALProof_compose now S h m = Some (p, h')"
  from generateCALProof_compose_SomeD[OF this] show ?thesis
    by (elim exE conjE) (rule exI)
next
  assume "generateBTCProof_compose now S h m = Some (p, h')"
  from generateBTCProof_compose_SomeD[OF this] show ?thesis
    by (elim exE conjE) (rule exI)
qed

lemma compose_submitted:
  assumes run: "generateCALProof_compose now S h m = Some (p, h') \<or>
           generateBTCProof_compose now S h m = Some (p, h')"
    and hid: "get_prop h m ''hash_id'' = Some (Str hid)"
  shows "\<exists>submitted.
     formatDateISO8601NoMs (new_Date now (Some (uuidTime_v1 S hid))) = Some submitted \<and>
     get_prop h' p ''hash_submitted_at'' = Some (Str submitted)"
  using run
proof
  assume "generateCALProof_compose now S h m = Some (p, h')"
  from generateCALProof_compose_SomeD[OF this] get_prop_old[OF hid, of "[Obj []]"]
  show ?thesis
    by (elim exE conjE) (auto simp: get_prop_young uuidTime_v1_call_def)
next
  assume "generateBTCProof_compose now S h m = Some (p, h')"
  from generateBTCProof_compose_SomeD[OF this] get_prop_old[OF hid, of "[Obj []]"]
  show ?thesis
    by (elim exE conjE) (auto simp: get_prop_young uuidTime_v1_call_def)
qed

lemma sample_iso8601: "iso8601_seconds 1489965872123 = ''2017-03-19T23:24:32Z''"
  unfolding iso8601_seconds_def civil_from_days_def Let_def
  by (simp add: pad_numerals digit_def)

lemma sample_year:
  "0 \<le> fst (civil_from_days (1489965872123 div 86400000))"
  "fst (civil_from_days (1489965872123 div 86400000)) \<le> 9999"
  unfolding civil_from_days_def Let_def
  by simp_all

lemma new_Date_of_time: "new_Date now1 (Some x) = new_Date now2 (Some x)"
  by (cases x) simp_all

text \<open>
  C7. The \<^verbatim>\<open>hash_submitted_at\<close> of a document is a function of the hash id alone. Take
  two runs that compose a document for the same hash id, a string: at the clock times
  \<open>now1\<close> and \<open>now2\<close>, by either generator, on any heaps and messages, with any
  validator, Redis and broker, \<^verbatim>\<open>uuidTime.v1\<close> reading the same in the id in both. The two
  documents have the same \<^verbatim>\<open>hash_submitted_at\<close>. And when the time that \<^verbatim>\<open>uuidTime.v1\<close>
  reads in the id is \<open>t\<close>, of a date in the years 0 to 9999 (the times of version-1
  UUIDs lie in the years 1582 to 5236), that value is the ISO 8601 form of \<open>t\<close> to the
  second, \<^verbatim>\<open>YYYY-MM-DDTHH:mm:ssZ\<close>, without the milliseconds.
\<close>

theorem submitted_at_from_hash_id:
  assumes run1: "generateCALProof_compose now1 S1 h1 m1 = Some (p1, h1') \<or>
                 generateBTCProof_compose now1 S1 h1 m1 = Some (p1, h1')"
    and run2: "generateCALProof_compose now2 S2 h2 m2 = Some (p2, h2') \<or>
               generateBTCProof_compose now2 S2 h2 m2 = Some (p2, h2')"
    and id1: "get_prop h1 m1 ''hash_id'' = Some (Str hid)"
    and id2: "get_prop h2 m2 ''hash_id'' = Some (Str hid)"
    and pkg: "uuidTime_v1 S1 hid = uuidTime_v1 S2 hid"
  shows "get_prop h1' p1 ''hash_submitted_at'' = get_prop h2' p2 ''hash_submitted_at'' \<and>
     (\<forall>t. uuidTime_v1 S1 hid = Fin t \<and>
          0 \<le> fst (civil_from_days (t div 86400000)) \<and>
          fst (civil_from_days (t div 86400000)) \<le> 9999 \<longrightarrow>
        get_prop h1' p1 ''hash_submitted_at'' = Some (Str (iso8601_seconds t)))"
proof -
  from compose_submitted[OF run1 id1] obtain s1
    where s1: "formatDateISO8601NoMs (new_Date now1 (Some (uuidTime_v1 S1 hid))) = Some s1"
      and g1: "get_prop h1' p1 ''hash_submitted_at'' = Some (Str s1)"
    by blast
  from compose_submitted[OF run2 id2] obtain s2
    where s2: "formatDateISO8601NoMs (new_Date now2 (Some (uuidTime_v1 S2 hid))) = Some s2"
      and g2: "get_prop h2' p2 ''hash_submitted_at'' = Some (Str s2)"
    by blast
  from s1 s2 pkg new_Date_of_time[of now1 "uuidTime_v1 S2 hid" now2] have "s1 = s2"
    by simp
  with g1 g2 have same:
    "get_prop h1' p1 ''hash_submitted_at'' = get_prop h2' p2 ''hash_submitted_at''"
    by simp
  have "get_prop h1' p1 ''hash_submitted_at'' = Some (Str (iso8601_seconds t))"
    if t: "uuidTime_v1 S1 hid = Fin t"
      and year: "0 \<le> fst (civil_from_days (t div 86400000))"
        "fst (civil_from_days (t div 86400000)) \<le> 9999" for t
  proof -
    from s1 t have "formatDateISO8601NoMs (new_Date now1 (Some (Fin t))) = Some s1"
      by simp
    from formatDateISO8601NoMs_iso8601[OF this year] g1 show ?thesis
      by simp
  qed
  with same show ?thesis
    by blast
qed

theorem submitted_at_from_hash_id_witness:
  "\<exists>p1 h1' p2 h2'.
     generateCALProof_compose sample_now (sample_services True None None) sample_heap (Ref 0) =
       Some (p1, h1') \<and>
     generateBTCProof_compose (sample_now + 31536000000)
       (sample_services False (Some (Error ''down'')) None)
       (sample_heap @ [Obj [(''later'', Null)]]) (Ref 0) = Some (p2, h2') \<and>
     get_prop h1' p1 ''hash_submitted_at'' = Some (Str ''2017-03-19T23:24:32Z'') \<and>
     get_prop h2' p2 ''hash_submitted_at'' = Some (Str ''2017-03-19T23:24:32Z'')"
proof -
  let ?S1 = "sample_services True None None"
  let ?S2 = "sample_services False (Some (Error ''down'')) None"
  let ?h2 = "sample_heap @ [Obj [(''later'', Null)]]"
  from sample_cal_compose obtain h1' where r1:
    "generateCALProof_compose sample_now ?S1 sample_heap (Ref 0) =
       Some (Ref (length sample_heap), h1')" ..
  have "\<exists>h'. generateBTCProof_compose (sample_now + 31536000000) ?S2 ?h2 (Ref 0) =
      Some (Ref (length ?h2), h')"
    by (rule exI, rule generateBTCProof_compose_run[where hid = sample_id
        and hash = "Str ''ab12''" and aggState = "Ref 1" and calState = "Ref 5"
        and anchor = "Ref 8" and a = 2 and c = 6 and A = "[Ref 3, Ref 4]" and pa = "[]"
        and C = "[Ref 7]" and pc = "[]" and anchor_id = "Str ''42''" and uris = "Ref 9"
        and anchorAggState = "Ref 10" and btcTxState = "Ref 13" and btcHeadState = "Ref 16"
        and btcAnchor = "Ref 19" and aa = 11 and t = 14 and b = 17 and AA = "[Ref 12]"
        and paa = "[]" and T = "[Ref 15]" and pt = "[]" and B = "[Ref 18]" and pb = "[]"
        and btc_anchor_id = "Str ''484001''"])
     (simp_all add: sample_reads sample_submitted[unfolded sample_id_def])
  then obtain h2' where r2:
    "generateBTCProof_compose (sample_now + 31536000000) ?S2 ?h2 (Ref 0) =
       Some (Ref (length ?h2), h2')" ..
  have id1: "get_prop sample_heap (Ref 0) ''hash_id'' = Some (Str sample_id)"
    by (simp add: sample_reads)
  have id2: "get_prop ?h2 (Ref 0) ''hash_id'' = Some (Str sample_id)"
    by (simp add: sample_reads)
  have pkg: "uuidTime_v1 ?S1 sample_id = uuidTime_v1 ?S2 sample_id"
    by (simp add: sample_services_def)
  have time: "uuidTime_v1 ?S1 sample_id = Fin 1489965872123"
    by (simp add: sample_services_def)
  note both = submitted_at_from_hash_id[OF disjI1[OF r1] disjI2[OF r2] id1 id2 pkg]
  from both[THEN conjunct2, rule_format, of 1489965872123] time sample_year
  have v1: "get_prop h1' (Ref (length sample_heap)) ''hash_submitted_at'' =
      Some (Str ''2017-03-19T23:24:32Z'')"
    by (simp only: sample_iso8601 simp_thms)
  with both[THEN conjunct1]
  have v2: "get_prop h2' (Ref (length ?h2)) ''hash_submitted_at'' =
      Some (Str ''2017-03-19T23:24:32Z'')"
    by simp
  from r1 r2 v1 v2 show ?thesis by blast
qed


section \<open>Processing a message\<close>

lemma processMessage_composed:
  assumes msg: "content msg = Some m"
    and composed:
      "(properties_type msg = Some ''cal'' \<and> generateCALProof_compose now S h m = Some (p, h')) \<or>
       (properties_type msg = Some ''btc'' \<and> generateBTCProof_compose now S h m = Some (p, h'))"
  shows "processMessage now E S h (Some msg) w =
     (if \<not> validate S h' p then Returned (invalid_schema E w)
      else waterfall E S (if properties_type msg = Some ''cal'' then ''[cal]'' else ''[btc]'')
             h' p m w)"
  using composed msg
  by (auto simp: processMessage_def generateCALProof_def generateBTCProof_def)

lemma waterfall_unfold:
  assumes "get_prop h' m ''hash_id'' = Some (Str hid)"
  shows "waterfall E S tag h' p m w =
     (case objectToBase64 S h' p of
        Inl err \<Rightarrow> Returned (finish E tag (Some err) w)
      | Inr b \<Rightarrow>
          (case redis_set S hid b (PROOF_EXPIRE_MINUTES E * 60) w of
             None \<Rightarrow> Thrown w
           | Some (Inl err) \<Rightarrow> Returned (finish E tag (Some err) w)
           | Some (Inr w1) \<Rightarrow>
               (case redis_hgetall S (''sub:'' @ hid) w1 of
                  None \<Rightarrow> Thrown w1
                | Some (Inl err) \<Rightarrow> Returned (finish E tag (Some err) w1)
                | Some (Inr res) \<Rightarrow>
                    (let (a, c) = find_subscription res;
                         (err, w2) = publish_ready E S a c (Str hid) w1
                     in Returned (finish E tag err w2)))))"
  using assms
  by (simp add: waterfall_def redis_key_def to_string_def
           split: sum.splits prod.splits option.splits)

lemma composed_hash_id:
  assumes "(properties_type msg = Some ''cal'' \<and> generateCALProof_compose now S h m = Some (p, h')) \<or>
       (properties_type msg = Some ''btc'' \<and> generateBTCProof_compose now S h m = Some (p, h'))"
    and "get_prop h m ''hash_id'' = Some (Str hid)"
  shows "get_prop h' m ''hash_id'' = Some (Str hid)"
proof -
  from assms(1) have "generateCALProof_compose now S h m = Some (p, h') \<or>
      generateBTCProof_compose now S h m = Some (p, h')"
    by blast
  from compose_extends[OF this] obtain ext where "h' = h @ ext" ..
  with assms(2) show ?thesis
    by (simp add: get_prop_old)
qed

lemmas world_steps = finish_def ack_def nack_def console_print_def invalid_schema_def
  redis_set_def redis_hgetall_def publish_ready_def publish_def find_subscription_def truthy_def

lemma sample_message_content: "content (sample_message t) = Some (Ref 0)"
  by (simp add: sample_message_def)

lemma sample_hash_id: "get_prop sample_heap (Ref 0) ''hash_id'' = Some (Str sample_id)"
  by (simp add: sample_reads)

lemma sample_cal_composed:
  "\<exists>h'. (properties_type (sample_message ''cal'') = Some ''cal'' \<and>
          generateCALProof_compose sample_now (sample_services v e1 e2) sample_heap (Ref 0) =
            Some (Ref (length sample_heap), h')) \<or>
         (properties_type (sample_message ''cal'') = Some ''btc'' \<and>
          generateBTCProof_compose sample_now (sample_services v e1 e2) sample_heap (Ref 0) =
            Some (Ref (length sample_heap), h'))"
  using sample_cal_compose[of v e1 e2] by (auto simp: sample_message_def)

lemma sample_btc_composed:
  "\<exists>h'. (properties_type (sample_message ''btc'') = Some ''cal'' \<and>
          generateCALProof_compose sample_now (sample_services v e1 e2) sample_heap (Ref 0) =
            Some (Ref (length sample_heap), h')) \<or>
         (properties_type (sample_message ''btc'') = Some ''btc'' \<and>
          generateBTCProof_compose sample_now (sample_services v e1 e2) sample_heap (Ref 0) =
            Some (Ref (length sample_heap), h'))"
  using sample_btc_compose[of v e1 e2] by (auto simp: sample_message_def)

lemmas sample_outside = sample_services_def sample_world_def sample_env_def sample_id_def

text \<open>
  What holds of the acknowledgment when every call of the Redis client is answered.
  For a \<^verbatim>\<open>cal\<close> or \<^verbatim>\<open>btc\<close> message whose document has been composed: when the
  validator rejects the document, the message is acknowledged, and neither the Redis
  keyspace nor the published notifications change; when the document is valid and the
  encoding fails or the client passes an error of the write to the callback, the
  message is rejected (nack), again with no write and no notification; when the
  document is valid and stored and the publishing of the notification fails, the
  message is rejected. In each case exactly one of \<^verbatim>\<open>ack\<close> and \<^verbatim>\<open>nack\<close> is called, once.
\<close>

lemma acknowledgment_policy:
  assumes msg: "content msg = Some messageObj"
    and composed:
      "(properties_type msg = Some ''cal'' \<and>
          generateCALProof_compose now S h messageObj = Some (proof, h')) \<or>
       (properties_type msg = Some ''btc'' \<and>
          generateBTCProof_compose now S h messageObj = Some (proof, h'))"
    and hid: "get_prop h messageObj ''hash_id'' = Some (Str hid)"
  shows
    "(\<not> validate S h' proof \<longrightarrow>
        (\<exists>w'. processMessage now E S h (Some msg) w = Returned w' \<and>
           decisions w' = decisions w @ [Ack] \<and>
           redis w' = redis w \<and> published w' = published w)) \<and>
     (validate S h' proof \<and>
        (objectToBase64 S h' proof = Inl err \<or>
         objectToBase64 S h' proof = Inr b \<and> redis_set_reply S hid = Reply (Some err)) \<longrightarrow>
        (\<exists>w'. processMessage now E S h (Some msg) w = Returned w' \<and>
           decisions w' = decisions w @ [Nack] \<and>
           redis w' = redis w \<and> published w' = published w)) \<and>
     (validate S h' proof \<and> objectToBase64 S h' proof = Inr b \<and>
        redis_set_reply S hid = Reply None \<and> redis_hgetall_reply S (''sub:'' @ hid) = Reply None \<and>
        redis w (''sub:'' @ hid) = Some (RHash kvs) \<and>
        map_of kvs ''api_id'' = Some api_id \<and> api_id \<noteq> [] \<and>
        map_of kvs ''cx_id'' = Some cx_id \<and> cx_id \<noteq> [] \<and>
        publish_error S
          \<lparr>exchange = RMQ_OUTGOING_EXCHANGE E, routing_key = [],
            body = [(''cx_id'', Str cx_id), (''hash_id'', Str hid)],
            headers = [(''api_id'', api_id)], persistent = True\<rparr> = Some err \<longrightarrow>
        (\<exists>w'. processMessage now E S h (Some msg) w = Returned w' \<and>
           decisions w' = decisions w @ [Nack]))"
  unfolding processMessage_composed[OF msg composed]
    waterfall_unfold[OF composed_hash_id[OF composed hid]]
  by (auto simp: world_steps)

lemma acknowledgment_policy_sample:
  "(\<exists>w'. processMessage sample_now sample_env (sample_services False None None) sample_heap
           (Some (sample_message ''cal'')) (sample_world None) = Returned w' \<and>
         decisions w' = [Ack] \<and> redis w' = redis (sample_world None) \<and> published w' = []) \<and>
   (\<exists>w'. processMessage sample_now sample_env (sample_services True (Some (Error ''down'')) None)
           sample_heap (Some (sample_message ''btc'')) (sample_world None) = Returned w' \<and>
         decisions w' = [Nack] \<and> redis w' = redis (sample_world None) \<and> published w' = []) \<and>
   (\<exists>w'. processMessage sample_now sample_env (sample_services True None (Some (Error ''closed'')))
           sample_heap (Some (sample_message ''cal''))
           (sample_world (Some [(''api_id'', ''X''), (''cx_id'', ''Y'')])) = Returned w' \<and>
         decisions w' = [Nack])"
proof (intro conjI)
  from sample_cal_composed obtain h' where
    c: "(properties_type (sample_message ''cal'') = Some ''cal'' \<and>
          generateCALProof_compose sample_now (sample_services False None None) sample_heap (Ref 0) =
            Some (Ref (length sample_heap), h')) \<or>
         (properties_type (sample_message ''cal'') = Some ''btc'' \<and>
          generateBTCProof_compose sample_now (sample_services False None None) sample_heap (Ref 0) =
            Some (Ref (length sample_heap), h'))" ..
  from acknowledgment_policy[OF sample_message_content c sample_hash_id,
      where E = sample_env and w = "sample_world None", THEN conjunct1]
  show "\<exists>w'. processMessage sample_now sample_env (sample_services False None None) sample_heap
           (Some (sample_message ''cal'')) (sample_world None) = Returned w' \<and>
         decisions w' = [Ack] \<and> redis w' = redis (sample_world None) \<and> published w' = []"
    by (simp add: sample_outside)
next
  from sample_btc_composed obtain h' where
    c: "(properties_type (sample_message ''btc'') = Some ''cal'' \<and>
          generateCALProof_compose sample_now (sample_services True (Some (Error ''down'')) None)
            sample_heap (Ref 0) = Some (Ref (length sample_heap), h')) \<or>
         (properties_type (sample_message ''btc'') = Some ''btc'' \<and>
          generateBTCProof_compose sample_now (sample_services True (Some (Error ''down'')) None)
            sample_heap (Ref 0) = Some (Ref (length sample_heap), h'))" ..
  from acknowledgment_policy[OF sample_message_content c sample_hash_id,
      where E = sample_env and w = "sample_world None" and err = "Error ''down''"
        and b = "''eJyrVkrOz0nVUbJSKs7MS8lXqgUAJ2YFYg==''",
      THEN conjunct2, THEN conjunct1]
  show "\<exists>w'. processMessage sample_now sample_env (sample_services True (Some (Error ''down'')) None)
           sample_heap (Some (sample_message ''btc'')) (sample_world None) = Returned w' \<and>
         decisions w' = [Nack] \<and> redis w' = redis (sample_world None) \<and> published w' = []"
    by (simp add: sample_outside)
next
  from sample_cal_composed obtain h' where
    c: "(properties_type (sample_message ''cal'') = Some ''cal'' \<and>
          generateCALProof_compose sample_now (sample_services True None (Some (Error ''closed'')))
            sample_heap (Ref 0) = Some (Ref (length sample_heap), h')) \<or>
         (properties_type (sample_message ''cal'') = Some ''btc'' \<and>
          generateBTCProof_compose sample_now (sample_services True None (Some (Error ''closed'')))
            sample_heap (Ref 0) = Some (Ref (length sample_heap), h'))" ..
  from acknowledgment_policy[OF sample_message_content c sample_hash_id,
      where E = sample_env and w = "sample_world (Some [(''api_id'', ''X''), (''cx_id'', ''Y'')])"
        and err = "Error ''closed''" and b = "''eJyrVkrOz0nVUbJSKs7MS8lXqgUAJ2YFYg==''"
        and kvs = "[(''api_id'', ''X''), (''cx_id'', ''Y'')]" and api_id = "''X''"
        and cx_id = "''Y''",
      THEN conjunct2, THEN conjunct2]
  show "\<exists>w'. processMessage sample_now sample_env (sample_services True None (Some (Error ''closed'')))
           sample_heap (Some (sample_message ''cal''))
           (sample_world (Some [(''api_id'', ''X''), (''cx_id'', ''Y'')])) = Returned w' \<and>
         decisions w' = [Nack]"
    by (simp add: sample_outside)
qed

text \<open>
  When the write to Redis fails because the client is gone, the message is not
  rejected. With the variable \<^verbatim>\<open>redis\<close> set to \<^verbatim>\<open>null\<close> by the \<^verbatim>\<open>error\<close> handler (line 29),
  \<^verbatim>\<open>redis.set\<close> in the second task (lines 77 and 159) throws a \<^verbatim>\<open>TypeError\<close>; the final
  callback is not called, and the exception reaches the consumer.
\<close>

lemma no_client_no_decision:
  assumes msg: "content msg = Some messageObj"
    and composed:
      "(properties_type msg = Some ''cal'' \<and>
          generateCALProof_compose now S h messageObj = Some (proof, h')) \<or>
       (properties_type msg = Some ''btc'' \<and>
          generateBTCProof_compose now S h messageObj = Some (proof, h'))"
    and hid: "get_prop h messageObj ''hash_id'' = Some (Str hid)"
    and valid: "validate S h' proof"
    and encoded: "objectToBase64 S h' proof = Inr b"
    and gone: "redis_set_reply S hid = NoClient"
  shows "processMessage now E S h (Some msg) w = Thrown w"
  using valid encoded gone
  unfolding processMessage_composed[OF msg composed]
    waterfall_unfold[OF composed_hash_id[OF composed hid]]
  by (simp add: redis_set_def)

text \<open>
  C3, where the store is not available. The sample message is processed as a \<^verbatim>\<open>cal\<close>
  and as a \<^verbatim>\<open>btc\<close> message while the variable \<^verbatim>\<open>redis\<close> is \<^verbatim>\<open>null\<close>. Its document is
  composed and passes the validation; the write to Redis fails; the processing ends
  with an exception, and neither \<^verbatim>\<open>ack\<close> nor \<^verbatim>\<open>nack\<close> has been called: the message is
  not rejected.
\<close>

theorem store_unavailable_no_decision:
  "(\<exists>proof h' w'.
      generateCALProof_compose sample_now sample_services_no_client sample_heap (Ref 0) =
        Some (proof, h') \<and>
      validate sample_services_no_client h' proof \<and>
      processMessage sample_now sample_env sample_services_no_client sample_heap
        (Some (sample_message ''cal'')) (sample_world None) = Thrown w' \<and>
      decisions w' = [] \<and> published w' = [] \<and> redis w' sample_id = None) \<and>
   (\<exists>proof h' w'.
      generateBTCProof_compose sample_now sample_services_no_client sample_heap (Ref 0) =
        Some (proof, h') \<and>
      validate sample_services_no_client h' proof \<and>
      processMessage sample_now sample_env sample_services_no_client sample_heap
        (Some (sample_message ''btc'')) (sample_world None) = Thrown w' \<and>
      decisions w' = [] \<and> published w' = [] \<and> redis w' sample_id = None)"
proof (intro conjI)
  let ?S = sample_services_no_client
  from sample_no_client_compose(1) obtain h' where
    c: "generateCALProof_compose sample_now ?S sample_heap (Ref 0) =
          Some (Ref (length sample_heap), h')" ..
  then have "(properties_type (sample_message ''cal'') = Some ''cal'' \<and>
        generateCALProof_compose sample_now ?S sample_heap (Ref 0) =
          Some (Ref (length sample_heap), h')) \<or>
      (properties_type (sample_message ''cal'') = Some ''btc'' \<and>
        generateBTCProof_compose sample_now ?S sample_heap (Ref 0) =
          Some (Ref (length sample_heap), h'))"
    by (simp add: sample_message_def)
  from no_client_no_decision[OF sample_message_content this sample_hash_id,
      where E = sample_env and w = "sample_world None"
        and b = "''eJyrVkrOz0nVUbJSKs7MS8lXqgUAJ2YFYg==''"]
  have "processMessage sample_now sample_env ?S sample_heap
      (Some (sample_message ''cal'')) (sample_world None) = Thrown (sample_world None)"
    by (simp add: sample_services_no_client_def sample_services_def)
  with c show "\<exists>proof h' w'.
      generateCALProof_compose sample_now ?S sample_heap (Ref 0) = Some (proof, h') \<and>
      validate ?S h' proof \<and>
      processMessage sample_now sample_env ?S sample_heap
        (Some (sample_message ''cal'')) (sample_world None) = Thrown w' \<and>
      decisions w' = [] \<and> published w' = [] \<and> redis w' sample_id = None"
    by (simp add: sample_services_no_client_def sample_services_def sample_world_def)
next
  let ?S = sample_services_no_client
  from sample_no_client_compose(2) obtain h' where
    c: "generateBTCProof_compose sample_now ?S sample_heap (Ref 0) =
          Some (Ref (length sample_heap), h')" ..
  then have "(properties_type (sample_message ''btc'') = Some ''cal'' \<and>
        generateCALProof_compose sample_now ?S sample_heap (Ref 0) =
          Some (Ref (length sample_heap), h')) \<or>
      (properties_type (sample_message ''btc'') = Some ''btc'' \<and>
        generateBTCProof_compose sample_now ?S sample_heap (Ref 0) =
          Some (Ref (length sample_heap), h'))"
    by (simp add: sample_message_def)
  from no_client_no_decision[OF sample_message_content this sample_hash_id,
      where E = sample_env and w = "sample_world None"
        and b = "''eJyrVkrOz0nVUbJSKs7MS8lXqgUAJ2YFYg==''"]
  have "processMessage sample_now sample_env ?S sample_heap
      (Some (sample_message ''btc'')) (sample_world None) = Thrown (sample_world None)"
    by (simp add: sample_services_no_client_def sample_services_def)
  with c show "\<exists>proof h' w'.
      generateBTCProof_compose sample_now ?S sample_heap (Ref 0) = Some (proof, h') \<and>
      validate ?S h' proof \<and>
      processMessage sample_now sample_env ?S sample_heap
        (Some (sample_message ''btc'')) (sample_world None) = Thrown w' \<and>
      decisions w' = [] \<and> published w' = [] \<and> redis w' sample_id = None"
    by (simp add: sample_services_no_client_def sample_services_def sample_world_def)
qed


section \<open>The notification\<close>

text \<open>
  The notification is published by the fourth task of the waterfall, which runs only
  for a document that is valid, encoded and stored. A \<^verbatim>\<open>cal\<close> message whose hash id has
  a subscription with both ids, but whose document the validator rejects, is
  acknowledged with no notification published.
\<close>

theorem notification_needs_stored_proof:
  "(\<exists>w'. processMessage sample_now sample_env (sample_services False None None) sample_heap
        (Some (sample_message ''cal''))
        (sample_world (Some [(''api_id'', ''X''), (''cx_id'', ''Y'')])) = Returned w' \<and>
      published w' = [] \<and> decisions w' = [Ack]) \<and>
   get_prop sample_heap (Ref 0) ''hash_id'' = Some (Str sample_id) \<and>
   redis (sample_world (Some [(''api_id'', ''X''), (''cx_id'', ''Y'')])) (''sub:'' @ sample_id) =
     Some (RHash [(''api_id'', ''X''), (''cx_id'', ''Y'')])"
proof -
  from sample_cal_composed obtain h' where
    c: "(properties_type (sample_message ''cal'') = Some ''cal'' \<and>
          generateCALProof_compose sample_now (sample_services False None None) sample_heap (Ref 0) =
            Some (Ref (length sample_heap), h')) \<or>
         (properties_type (sample_message ''cal'') = Some ''btc'' \<and>
          generateBTCProof_compose sample_now (sample_services False None None) sample_heap (Ref 0) =
            Some (Ref (length sample_heap), h'))" ..
  show ?thesis
    unfolding processMessage_composed[OF sample_message_content c]
    by (simp add: sample_hash_id world_steps sample_outside)
qed

text \<open>
  C4, for the messages that reach the fourth task. For a \<^verbatim>\<open>cal\<close> or \<^verbatim>\<open>btc\<close> message
  whose document has been composed, is valid, and is encoded and stored, and whose
  lookup of \<^verbatim>\<open>'sub:' + hash_id\<close> does not fail: when the record found has a non-empty
  \<^verbatim>\<open>api_id\<close> and a non-empty \<^verbatim>\<open>cx_id\<close>, exactly one notification is published, to the
  outgoing exchange, with the header \<^verbatim>\<open>api_id\<close> equal to the record's and with the body
  \<^verbatim>\<open>{cx_id, hash_id}\<close>; when there is no record, no notification is published and the
  message is acknowledged. With no record, no notification is published whatever the
  validator, Redis and the broker answer, and the processing returns when the Redis
  client is there at both calls.
\<close>

theorem notification_routing:
  assumes msg: "content msg = Some messageObj"
    and composed:
      "(properties_type msg = Some ''cal'' \<and>
          generateCALProof_compose now S h messageObj = Some (proof, h')) \<or>
       (properties_type msg = Some ''btc'' \<and>
          generateBTCProof_compose now S h messageObj = Some (proof, h'))"
    and hid: "get_prop h messageObj ''hash_id'' = Some (Str hid)"
  shows
    "(validate S h' proof \<and> objectToBase64 S h' proof = Inr b \<and>
        redis_set_reply S hid = Reply None \<and> redis_hgetall_reply S (''sub:'' @ hid) = Reply None \<and>
        redis w (''sub:'' @ hid) = Some (RHash kvs) \<and>
        map_of kvs ''api_id'' = Some api_id \<and> api_id \<noteq> [] \<and>
        map_of kvs ''cx_id'' = Some cx_id \<and> cx_id \<noteq> [] \<longrightarrow>
        (\<exists>w'. processMessage now E S h (Some msg) w = Returned w' \<and>
           published w' = published w @
             [\<lparr>exchange = RMQ_OUTGOING_EXCHANGE E, routing_key = [],
               body = [(''cx_id'', Str cx_id), (''hash_id'', Str hid)],
               headers = [(''api_id'', api_id)], persistent = True\<rparr>])) \<and>
     (redis w (''sub:'' @ hid) = None \<longrightarrow>
        published (after (processMessage now E S h (Some msg) w)) = published w \<and>
        (redis_set_reply S hid \<noteq> NoClient \<and>
         redis_hgetall_reply S (''sub:'' @ hid) \<noteq> NoClient \<longrightarrow>
           (\<exists>w'. processMessage now E S h (Some msg) w = Returned w'))) \<and>
     (validate S h' proof \<and> objectToBase64 S h' proof = Inr b \<and>
        redis_set_reply S hid = Reply None \<and> redis_hgetall_reply S (''sub:'' @ hid) = Reply None \<and>
        redis w (''sub:'' @ hid) = None \<longrightarrow>
        (\<exists>w'. processMessage now E S h (Some msg) w = Returned w' \<and>
           published w' = published w \<and> decisions w' = decisions w @ [Ack]))"
  unfolding processMessage_composed[OF msg composed]
    waterfall_unfold[OF composed_hash_id[OF composed hid]]
  by (auto simp: world_steps Let_def split: sum.splits option.splits reply.splits)

theorem notification_routing_witness:
  "(\<exists>w'. processMessage sample_now sample_env (sample_services True None None) sample_heap
           (Some (sample_message ''btc''))
           (sample_world (Some [(''api_id'', ''X''), (''cx_id'', ''Y'')])) = Returned w' \<and>
         published w' =
           [\<lparr>exchange = ''exchange.headers'', routing_key = [],
             body = [(''cx_id'', Str ''Y''), (''hash_id'', Str sample_id)],
             headers = [(''api_id'', ''X'')], persistent = True\<rparr>]) \<and>
   (\<exists>w'. processMessage sample_now sample_env (sample_services True (Some (Error ''down'')) None)
           sample_heap (Some (sample_message ''cal'')) (sample_world None) = Returned w' \<and>
         published w' = []) \<and>
   (\<exists>w'. processMessage sample_now sample_env (sample_services True None None) sample_heap
           (Some (sample_message ''cal'')) (sample_world None) = Returned w' \<and>
         published w' = [] \<and> decisions w' = [Ack])"
proof (intro conjI)
  from sample_btc_composed obtain h' where
    c: "(properties_type (sample_message ''btc'') = Some ''cal'' \<and>
          generateCALProof_compose sample_now (sample_services True None None)
            sample_heap (Ref 0) = Some (Ref (length sample_heap), h')) \<or>
         (properties_type (sample_message ''btc'') = Some ''btc'' \<and>
          generateBTCProof_compose sample_now (sample_services True None None)
            sample_heap (Ref 0) = Some (Ref (length sample_heap), h'))" ..
  from notification_routing[OF sample_message_content c sample_hash_id,
      where E = sample_env and w = "sample_world (Some [(''api_id'', ''X''), (''cx_id'', ''Y'')])"
        and b = "''eJyrVkrOz0nVUbJSKs7MS8lXqgUAJ2YFYg==''"
        and kvs = "[(''api_id'', ''X''), (''cx_id'', ''Y'')]" and api_id = "''X''"
        and cx_id = "''Y''",
      THEN conjunct1]
  show "\<exists>w'. processMessage sample_now sample_env (sample_services True None None) sample_heap
           (Some (sample_message ''btc''))
           (sample_world (Some [(''api_id'', ''X''), (''cx_id'', ''Y'')])) = Returned w' \<and>
         published w' =
           [\<lparr>exchange = ''exchange.headers'', routing_key = [],
             body = [(''cx_id'', Str ''Y''), (''hash_id'', Str sample_id)],
             headers = [(''api_id'', ''X'')], persistent = True\<rparr>]"
    by (simp add: sample_services_def sample_world_def sample_env_def)
next
  from sample_cal_composed obtain h' where
    c: "(properties_type (sample_message ''cal'') = Some ''cal'' \<and>
          generateCALProof_compose sample_now (sample_services True (Some (Error ''down'')) None)
            sample_heap (Ref 0) = Some (Ref (length sample_heap), h')) \<or>
         (properties_type (sample_message ''cal'') = Some ''btc'' \<and>
          generateBTCProof_compose sample_now (sample_services True (Some (Error ''down'')) None)
            sample_heap (Ref 0) = Some (Ref (length sample_heap), h'))" ..
  from notification_routing[OF sample_message_content c sample_hash_id,
      where E = sample_env and w = "sample_world None", THEN conjunct2, THEN conjunct1]
  show "\<exists>w'. processMessage sample_now sample_env (sample_services True (Some (Error ''down'')) None)
           sample_heap (Some (sample_message ''cal'')) (sample_world None) = Returned w' \<and>
         published w' = []"
    by (auto simp: sample_services_def sample_world_def sample_env_def)
next
  from sample_cal_composed obtain h' where
    c: "(properties_type (sample_message ''cal'') = Some ''cal'' \<and>
          generateCALProof_compose sample_now (sample_services True None None)
            sample_heap (Ref 0) = Some (Ref (length sample_heap), h')) \<or>
         (properties_type (sample_message ''cal'') = Some ''btc'' \<and>
          generateBTCProof_compose sample_now (sample_services True None None)
            sample_heap (Ref 0) = Some (Ref (length sample_heap), h'))" ..
  from notification_routing[OF sample_message_content c sample_hash_id,
      where E = sample_env and w = "sample_world None"
        and b = "''eJyrVkrOz0nVUbJSKs7MS8lXqgUAJ2YFYg==''",
      THEN conjunct2, THEN conjunct2]
  show "\<exists>w'. processMessage sample_now sample_env (sample_services True None None) sample_heap
           (Some (sample_message ''cal'')) (sample_world None) = Returned w' \<and>
         published w' = [] \<and> decisions w' = [Ack]"
    by (simp add: sample_services_def sample_world_def sample_env_def)
qed


text \<open>
  C9. A subscription record that lacks a non-empty \<^verbatim>\<open>api_id\<close> or a non-empty \<^verbatim>\<open>cx_id\<close>
  is treated as no record: for a message that reaches the lookup, no notification is
  published, no error is raised and the message is acknowledged, and the
  notifications, the decision and the console are those of the same run with the
  record removed.
\<close>

theorem partial_subscription_is_absent:
  assumes msg: "content msg = Some messageObj"
    and composed:
      "(properties_type msg = Some ''cal'' \<and>
          generateCALProof_compose now S h messageObj = Some (proof, h')) \<or>
       (properties_type msg = Some ''btc'' \<and>
          generateBTCProof_compose now S h messageObj = Some (proof, h'))"
    and hid: "get_prop h messageObj ''hash_id'' = Some (Str hid)"
    and valid: "validate S h' proof"
    and encoded: "objectToBase64 S h' proof = Inr b"
    and stored: "redis_set_reply S hid = Reply None"
    and looked: "redis_hgetall_reply S (''sub:'' @ hid) = Reply None"
    and found: "redis w (''sub:'' @ hid) = Some (RHash kvs)"
    and partial: "\<not> truthy (map_of kvs ''api_id'') \<or> \<not> truthy (map_of kvs ''cx_id'')"
  shows "\<exists>w' w''.
     processMessage now E S h (Some msg) w = Returned w' \<and>
     processMessage now E S h (Some msg) (w\<lparr>redis := (redis w)(''sub:'' @ hid := None)\<rparr>) =
       Returned w'' \<and>
     published w' = published w \<and> decisions w' = decisions w @ [Ack] \<and>
     published w'' = published w' \<and> decisions w'' = decisions w' \<and> console w'' = console w'"
  using valid encoded stored looked found partial
  unfolding processMessage_composed[OF msg composed]
    waterfall_unfold[OF composed_hash_id[OF composed hid]]
  by (auto simp: world_steps Let_def split: sum.splits option.splits)

theorem partial_subscription_is_absent_witness:
  "\<exists>w' w''.
     processMessage sample_now sample_env (sample_services True None None) sample_heap
       (Some (sample_message ''cal'')) (sample_world (Some [(''api_id'', ''X'')])) = Returned w' \<and>
     processMessage sample_now sample_env (sample_services True None None) sample_heap
       (Some (sample_message ''cal''))
       ((sample_world (Some [(''api_id'', ''X'')]))
          \<lparr>redis := (redis (sample_world (Some [(''api_id'', ''X'')])))
                      (''sub:'' @ sample_id := None)\<rparr>) = Returned w'' \<and>
     published w' = [] \<and> decisions w' = [Ack] \<and>
     published w'' = published w' \<and> decisions w'' = decisions w' \<and> console w'' = console w'"
proof -
  from sample_cal_composed obtain h' where
    c: "(properties_type (sample_message ''cal'') = Some ''cal'' \<and>
          generateCALProof_compose sample_now (sample_services True None None)
            sample_heap (Ref 0) = Some (Ref (length sample_heap), h')) \<or>
         (properties_type (sample_message ''cal'') = Some ''btc'' \<and>
          generateBTCProof_compose sample_now (sample_services True None None)
            sample_heap (Ref 0) = Some (Ref (length sample_heap), h'))" ..
  from partial_subscription_is_absent[OF sample_message_content c sample_hash_id,
      where E = sample_env and w = "sample_world (Some [(''api_id'', ''X'')])"
        and b = "''eJyrVkrOz0nVUbJSKs7MS8lXqgUAJ2YFYg==''" and kvs = "[(''api_id'', ''X'')]"]
  show ?thesis
    by (simp add: sample_services_def sample_world_def truthy_def)
qed

section \<open>The time to live and the age of a fetch\<close>

text \<open>
  C8. The proof is stored with a time to live of \<^verbatim>\<open>PROOF_EXPIRE_MINUTES * 60\<close> seconds:
  it is in the store when the processing has ended, which it does by returning when
  the Redis client is still there at the lookup of the subscription. The retrieval
  layer, reading the same \<^verbatim>\<open>PROOF_EXPIRE_MINUTES\<close>, gives no proof for a hash id whose
  time is more than that many seconds (times 1000, in milliseconds) before now, and
  reads the store for any other.
\<close>

theorem ttl_is_fetch_age:
  assumes msg: "content msg = Some messageObj"
    and composed:
      "(properties_type msg = Some ''cal'' \<and>
          generateCALProof_compose clock S h messageObj = Some (proof, h')) \<or>
       (properties_type msg = Some ''btc'' \<and>
          generateBTCProof_compose clock S h messageObj = Some (proof, h'))"
    and hid: "get_prop h messageObj ''hash_id'' = Some (Str hid)"
    and valid: "validate S h' proof"
    and encoded: "objectToBase64 S h' proof = Inr b"
    and stored: "redis_set_reply S hid = Reply None"
  shows "\<exists>w' seconds.
     after (processMessage clock E S h (Some msg) w) = w' \<and>
     (redis_hgetall_reply S (''sub:'' @ hid) \<noteq> NoClient \<longrightarrow>
        processMessage clock E S h (Some msg) w = Returned w') \<and>
     redis w' hid = Some (RString b seconds) \<and>
     seconds = PROOF_EXPIRE_MINUTES E * 60 \<and>
     (\<forall>now t base64. uuidValidate S hid 1 \<and> uuidTime_v1 S hid = Fin t \<longrightarrow>
        (seconds * 1000 < now - t \<longrightarrow>
           getProofsByIDV1Async_each E S now base64 w' hid = NoProof) \<and>
        (now - t \<le> seconds * 1000 \<and> redis_get_error S hid = None \<longrightarrow>
           getProofsByIDV1Async_each E S now True w' hid = Base64Proof b))"
  using valid encoded stored
  unfolding processMessage_composed[OF msg composed]
    waterfall_unfold[OF composed_hash_id[OF composed hid]]
  by (auto simp: world_steps Let_def getProofsByIDV1Async_each_def redis_get_def
           split: sum.splits option.splits prod.splits reply.splits redis_entry.splits)

theorem ttl_is_fetch_age_witness:
  "\<exists>w'.
     processMessage sample_now sample_env (sample_services True None None) sample_heap
       (Some (sample_message ''btc'')) (sample_world None) = Returned w' \<and>
     redis w' sample_id = Some (RString ''eJyrVkrOz0nVUbJSKs7MS8lXqgUAJ2YFYg=='' 86400) \<and>
     getProofsByIDV1Async_each sample_env (sample_services True None None)
       (1489965872123 + 86400001) False w' sample_id = NoProof \<and>
     getProofsByIDV1Async_each sample_env (sample_services True None None)
       (1489965872123 + 86400000) True w' sample_id =
       Base64Proof ''eJyrVkrOz0nVUbJSKs7MS8lXqgUAJ2YFYg==''"
proof -
  from sample_btc_composed obtain h' where
    c: "(properties_type (sample_message ''btc'') = Some ''cal'' \<and>
          generateCALProof_compose sample_now (sample_services True None None)
            sample_heap (Ref 0) = Some (Ref (length sample_heap), h')) \<or>
         (properties_type (sample_message ''btc'') = Some ''btc'' \<and>
          generateBTCProof_compose sample_now (sample_services True None None)
            sample_heap (Ref 0) = Some (Ref (length sample_heap), h'))" ..
  from ttl_is_fetch_age[OF sample_message_content c sample_hash_id,
      where E = sample_env and w = "sample_world None"
        and b = "''eJyrVkrOz0nVUbJSKs7MS8lXqgUAJ2YFYg==''"]
  obtain w' where w':
    "processMessage sample_now sample_env (sample_services True None None) sample_heap
       (Some (sample_message ''btc'')) (sample_world None) = Returned w'"
    "redis w' sample_id = Some (RString ''eJyrVkrOz0nVUbJSKs7MS8lXqgUAJ2YFYg=='' 86400)"
    "\<forall>now t base64. uuidValidate (sample_services True None None) sample_id 1 \<and>
        uuidTime_v1 (sample_services True None None) sample_id = Fin t \<longrightarrow>
        (86400 * 1000 < now - t \<longrightarrow>
           getProofsByIDV1Async_each sample_env (sample_services True None None) now base64 w'
             sample_id = NoProof) \<and>
        (now - t \<le> 86400 * 1000 \<and>
           redis_get_error (sample_services True None None) sample_id = None \<longrightarrow>
           getProofsByIDV1Async_each sample_env (sample_services True None None) now True w'
             sample_id = Base64Proof ''eJyrVkrOz0nVUbJSKs7MS8lXqgUAJ2YFYg=='')"
    by (auto simp: sample_services_def sample_env_def)
  from w'(3)[rule_format, of 1489965872123 "1489965872123 + 86400001" False]
  have late: "getProofsByIDV1Async_each sample_env (sample_services True None None)
       (1489965872123 + 86400001) False w' sample_id = NoProof"
    by (simp add: sample_services_def)
  from w'(3)[rule_format, of 1489965872123 "1489965872123 + 86400000" False]
  have in_time: "getProofsByIDV1Async_each sample_env (sample_services True None None)
       (1489965872123 + 86400000) True w' sample_id =
       Base64Proof ''eJyrVkrOz0nVUbJSKs7MS8lXqgUAJ2YFYg==''"
    by (simp add: sample_services_def)
  from w'(1,2) late in_time show ?thesis by blast
qed

section \<open>Messages of other types\<close>

text \<open>
  A \<^verbatim>\<open>cal\<close> or \<^verbatim>\<open>btc\<close> message whose document has been composed is settled once,
  whatever the validator, Redis and the broker answer, when the Redis client is there
  at both calls.
\<close>

lemma composed_message_one_decision:
  assumes msg: "content msg = Some messageObj"
    and composed:
      "(properties_type msg = Some ''cal'' \<and>
          generateCALProof_compose now S h messageObj = Some (proof, h')) \<or>
       (properties_type msg = Some ''btc'' \<and>
          generateBTCProof_compose now S h messageObj = Some (proof, h'))"
    and hid: "get_prop h messageObj ''hash_id'' = Some (Str hid)"
    and client: "redis_set_reply S hid \<noteq> NoClient"
      "redis_hgetall_reply S (''sub:'' @ hid) \<noteq> NoClient"
  shows "\<exists>w' d. processMessage now E S h (Some msg) w = Returned w' \<and> decisions w' = decisions w @ [d]"
  using client
  unfolding processMessage_composed[OF msg composed]
    waterfall_unfold[OF composed_hash_id[OF composed hid]]
  by (auto simp: world_steps Let_def
           split: sum.splits option.splits prod.splits reply.splits redis_entry.splits)

text \<open>
  C5. A message whose type is none of \<^verbatim>\<open>cal\<close>, \<^verbatim>\<open>eth\<close> and \<^verbatim>\<open>btc\<close> is reported on the
  console and neither acknowledged nor rejected: \<^verbatim>\<open>processMessage\<close> makes no call of
  \<^verbatim>\<open>ack\<close> or \<^verbatim>\<open>nack\<close> for it. The same holds for an \<^verbatim>\<open>eth\<close> message, which
  \<^verbatim>\<open>generateETHProof\<close> only reports.
\<close>

theorem unknown_type_no_decision:
  "(\<exists>w'. processMessage sample_now sample_env (sample_services True None None) sample_heap
        (Some (sample_message ''ltc'')) (sample_world None) = Returned w' \<and>
      decisions w' = [] \<and> console w' = [''Unknown state type ltc'']) \<and>
   (\<exists>w'. processMessage sample_now sample_env (sample_services True None None) sample_heap
        (Some (sample_message ''eth'')) (sample_world None) = Returned w' \<and>
      decisions w' = [] \<and> console w' = [''building eth proof''])"
  by (simp add: processMessage_def generateETHProof_def sample_message_def console_print_def
        sample_world_def)


end
